theory Spec2Isabelle
  imports Main "HOL-Library.Char_ord" "HOL-Library.List_Lexorder"
begin

section \<open>Values of the Python program\<close>

text \<open>
  The launch script \<^verbatim>\<open>docker/onezone.py\<close> handles decoded JSON and YAML documents.
  A document is a value of \<open>json\<close>; a dictionary keeps its insertion order, so it is an
  association list. Numbers are the integers (the script never computes with them): a
  number with a fraction or an exponent, which \<^verbatim>\<open>json.loads\<close> decodes to a float, is
  outside the model.
\<close>

datatype json =
    JNull
  | JBool bool
  | JNum int
  | JStr string
  | JList "json list"
  | JDict "(string \<times> json) list"

text \<open>The exceptions the modelled functions raise, as values.\<close>

datatype error =
    MissingVariableError string
  | AuthenticationError string
  | RuntimeError string
  | RequestException
  | JSONDecodeError
  | ParseError
  | ValueError
  | KeyError
  | IndexError
  | AttributeError
  | TypeError

abbreviation NL :: string where
  "NL \<equiv> [CHR 0x0A]"

text \<open>Truth value of an object, as \<^verbatim>\<open>if x:\<close> and \<^verbatim>\<open>not x\<close> take it.\<close>

fun py_truthy :: "json \<Rightarrow> bool" where
  "py_truthy JNull = False"
| "py_truthy (JBool b) = b"
| "py_truthy (JNum n) = (n \<noteq> 0)"
| "py_truthy (JStr s) = (s \<noteq> [])"
| "py_truthy (JList xs) = (xs \<noteq> [])"
| "py_truthy (JDict kvs) = (kvs \<noteq> [])"

text \<open>\<^verbatim>\<open>d.get(k, default)\<close>: only a dictionary has the method.\<close>

fun py_get :: "json \<Rightarrow> string \<Rightarrow> json \<Rightarrow> error + json" where
  "py_get (JDict kvs) k d = Inr (case map_of kvs k of None \<Rightarrow> d | Some v \<Rightarrow> v)"
| "py_get _ k d = Inl AttributeError"

text \<open>\<^verbatim>\<open>v[k]\<close> for a string key \<open>k\<close>.\<close>

fun py_getitem :: "json \<Rightarrow> string \<Rightarrow> error + json" where
  "py_getitem (JDict kvs) k = (case map_of kvs k of None \<Rightarrow> Inl KeyError | Some v \<Rightarrow> Inr v)"
| "py_getitem _ k = Inl TypeError"

text \<open>\<^verbatim>\<open>d[k] = v\<close> on a dictionary: an existing key keeps its place, a new one goes last.\<close>

fun dict_set :: "(string \<times> json) list \<Rightarrow> string \<Rightarrow> json \<Rightarrow> (string \<times> json) list" where
  "dict_set [] k v = [(k, v)]"
| "dict_set ((k', v') # kvs) k v =
     (if k' = k then (k, v) # kvs else (k', v') # dict_set kvs k v)"

text \<open>Substring test, \<^verbatim>\<open>k in s\<close> on two strings.\<close>

fun starts_with :: "string \<Rightarrow> string \<Rightarrow> bool" where
  "starts_with [] s = True"
| "starts_with (c # cs) [] = False"
| "starts_with (c # cs) (d # ds) = (c = d \<and> starts_with cs ds)"

fun substring :: "string \<Rightarrow> string \<Rightarrow> bool" where
  "substring k [] = (k = [])"
| "substring k (c # cs) = (starts_with k (c # cs) \<or> substring k cs)"

text \<open>
  \<^verbatim>\<open>k in v\<close> for a string \<open>k\<close>: a key of a dictionary, a substring of a string, an
  element of a list (a string is equal to strings only); anything else is not iterable.
\<close>

fun py_contains :: "string \<Rightarrow> json \<Rightarrow> error + bool" where
  "py_contains k (JDict kvs) = Inr (map_of kvs k \<noteq> None)"
| "py_contains k (JStr s) = Inr (substring k s)"
| "py_contains k (JList xs) = Inr (List.member xs (JStr k))"
| "py_contains k _ = Inl TypeError"

text \<open>The items a \<^verbatim>\<open>for\<close> loop draws from a value: a dictionary gives its keys.\<close>

fun py_iter :: "json \<Rightarrow> error + json list" where
  "py_iter (JList xs) = Inr xs"
| "py_iter (JStr s) = Inr (map (\<lambda>c. JStr [c]) s)"
| "py_iter (JDict kvs) = Inr (map (\<lambda>kv. JStr (fst kv)) kvs)"
| "py_iter _ = Inl TypeError"

text \<open>\<^verbatim>\<open>v[0]\<close> and \<^verbatim>\<open>v[1:]\<close>.\<close>

fun py_first :: "json \<Rightarrow> error + json" where
  "py_first (JList []) = Inl IndexError"
| "py_first (JList (x # xs)) = Inr x"
| "py_first (JStr []) = Inl IndexError"
| "py_first (JStr (c # cs)) = Inr (JStr [c])"
| "py_first (JDict kvs) = Inl KeyError"
| "py_first _ = Inl TypeError"

fun py_rest :: "json \<Rightarrow> error + json" where
  "py_rest (JList xs) = Inr (JList (drop 1 xs))"
| "py_rest (JStr s) = Inr (JStr (drop 1 s))"
| "py_rest _ = Inl TypeError"

text \<open>
  \<^verbatim>\<open>a == b\<close>: \<^verbatim>\<open>True\<close> and \<^verbatim>\<open>False\<close> are the integers 1 and 0, lists are compared
  item by item, dictionaries key by key whatever their order.
\<close>

fun py_eq :: "json \<Rightarrow> json \<Rightarrow> bool" where
  "py_eq JNull b = (b = JNull)"
| "py_eq (JBool x) b =
     (case b of JBool y \<Rightarrow> x = y | JNum n \<Rightarrow> n = (if x then 1 else 0) | _ \<Rightarrow> False)"
| "py_eq (JNum m) b =
     (case b of JNum n \<Rightarrow> m = n | JBool y \<Rightarrow> m = (if y then 1 else 0) | _ \<Rightarrow> False)"
| "py_eq (JStr s) b = (b = JStr s)"
| "py_eq (JList xs) b = (case b of JList ys \<Rightarrow> list_all2 py_eq xs ys | _ \<Rightarrow> False)"
| "py_eq (JDict kvs) b =
     (case b of
        JDict kws \<Rightarrow>
          length kvs = length kws \<and>
          list_all (\<lambda>kv. list_ex (\<lambda>kw. fst kv = fst kw \<and> py_eq (snd kv) (snd kw)) kws) kvs
      | _ \<Rightarrow> False)"

section \<open>Strings: splitting, joining, printing\<close>

text \<open>\<^verbatim>\<open>s.split(c)\<close>: one part more than there are separators.\<close>

fun split_on :: "char \<Rightarrow> string \<Rightarrow> string list" where
  "split_on c [] = [[]]"
| "split_on c (x # xs) =
     (if x = c then [] # split_on c xs
      else (case split_on c xs of [] \<Rightarrow> [[x]] | p # ps \<Rightarrow> (x # p) # ps))"

text \<open>\<^verbatim>\<open>sep.join(parts)\<close>.\<close>

fun join :: "string \<Rightarrow> string list \<Rightarrow> string" where
  "join sep [] = []"
| "join sep [x] = x"
| "join sep (x # y # ys) = x @ sep @ join sep (y # ys)"

text \<open>Decimal digits of a number, as \<^verbatim>\<open>'{}'.format(n)\<close> prints it.\<close>

function dec_nat :: "nat \<Rightarrow> string" where
  "dec_nat n =
     (if n < 10 then [''0123456789'' ! n]
      else dec_nat (n div 10) @ [''0123456789'' ! (n mod 10)])"
  by pat_completeness auto
termination
  by (relation "measure id") auto

declare dec_nat.simps [simp del]

definition dec_int :: "int \<Rightarrow> string" where
  "dec_int i = (if i < 0 then ''-'' @ dec_nat (nat (- i)) else dec_nat (nat i))"

text \<open>
  \<^verbatim>\<open>repr\<close> of a string: single quotes, unless the string has one and no double quote;
  the quote and the backslash escaped, control characters written out. A character
  beyond ASCII is its UTF-8 bytes here and is printed as it is.
\<close>

definition hex2 :: "nat \<Rightarrow> string" where
  "hex2 n = [''0123456789abcdef'' ! (n div 16), ''0123456789abcdef'' ! (n mod 16)]"

definition repr_char :: "char \<Rightarrow> char \<Rightarrow> string" where
  "repr_char q c =
     (if c = q \<or> c = CHR 0x5C then [CHR 0x5C, c]
      else if c = CHR 0x09 then [CHR 0x5C, CHR ''t'']
      else if c = CHR 0x0A then [CHR 0x5C, CHR ''n'']
      else if c = CHR 0x0D then [CHR 0x5C, CHR ''r'']
      else if (of_char c :: nat) < 32 \<or> c = CHR 0x7F then [CHR 0x5C, CHR ''x''] @ hex2 (of_char c)
      else [c])"

definition py_repr_str :: "string \<Rightarrow> string" where
  "py_repr_str s =
     (let q = (if List.member s (CHR 0x27) \<and> \<not> List.member s (CHR 0x22)
               then CHR 0x22 else CHR 0x27)
      in [q] @ concat (map (repr_char q) s) @ [q])"

fun py_repr :: "json \<Rightarrow> string" where
  "py_repr JNull = ''None''"
| "py_repr (JBool b) = (if b then ''True'' else ''False'')"
| "py_repr (JNum n) = dec_int n"
| "py_repr (JStr s) = py_repr_str s"
| "py_repr (JList xs) = ''['' @ join '', '' (map py_repr xs) @ '']''"
| "py_repr (JDict kvs) =
     ''{'' @ join '', '' (map (\<lambda>kv. py_repr_str (fst kv) @ '': '' @ py_repr (snd kv)) kvs) @ ''}''"

text \<open>\<^verbatim>\<open>'{}'.format(v)\<close>: a string is printed bare, any other value as its \<^verbatim>\<open>repr\<close>.\<close>

definition py_str :: "json \<Rightarrow> string" where
  "py_str v = (case v of JStr s \<Rightarrow> s | _ \<Rightarrow> py_repr v)"

section \<open>Word wrapping\<close>

text \<open>
  \<^verbatim>\<open>textwrap.fill\<close> of the Python library, under the options the script fixes in
  \<^verbatim>\<open>WRAP_KWARGS\<close> (width 100, no breaking of long words, no breaking on hyphens) and the
  library's defaults for the rest: tabs are expanded, every whitespace character becomes
  a space, the text is cut into chunks of words and of spaces, and the chunks are laid out
  line by line, a line losing the whitespace at its end and every line but the first the
  whitespace at its start. Lengths are in characters of the model, which are bytes: the
  model agrees with the library on ASCII text, and counts a character beyond ASCII as the
  bytes of its UTF-8 encoding where the library counts one.
\<close>

definition ws_char :: "char \<Rightarrow> bool" where
  "ws_char c = List.member [CHR 0x09, CHR 0x0A, CHR 0x0B, CHR 0x0C, CHR 0x0D, CHR 0x20] c"

definition py_isspace :: "char \<Rightarrow> bool" where
  "py_isspace c = (ws_char c \<or> List.member [CHR 0x1C, CHR 0x1D, CHR 0x1E, CHR 0x1F] c)"

fun expandtabs :: "nat \<Rightarrow> string \<Rightarrow> string" where
  "expandtabs col [] = []"
| "expandtabs col (c # cs) =
     (if c = CHR 0x09 then replicate (8 - col mod 8) CHR '' '' @ expandtabs 0 cs
      else if c = CHR 0x0A \<or> c = CHR 0x0D then c # expandtabs 0 cs
      else c # expandtabs (Suc col) cs)"

definition munge_whitespace :: "string \<Rightarrow> string" where
  "munge_whitespace text = map (\<lambda>c. if ws_char c then CHR '' '' else c) (expandtabs 0 text)"

fun split_chunks :: "string \<Rightarrow> string list" where
  "split_chunks [] = []"
| "split_chunks (c # cs) =
     (case split_chunks cs of
        [] \<Rightarrow> [[c]]
      | [] # rest \<Rightarrow> [c] # rest
      | (d # ds) # rest \<Rightarrow>
          if ws_char c = ws_char d then (c # d # ds) # rest else [c] # (d # ds) # rest)"

definition blank :: "string \<Rightarrow> bool" where
  "blank chunk = list_all py_isspace chunk"

fun take_fitting :: "int \<Rightarrow> int \<Rightarrow> string list \<Rightarrow> string list \<times> string list" where
  "take_fitting width cur_len [] = ([], [])"
| "take_fitting width cur_len (c # cs) =
     (if cur_len + int (length c) \<le> width
      then (case take_fitting width (cur_len + int (length c)) cs of (line, rest) \<Rightarrow> (c # line, rest))
      else ([], c # cs))"

definition wrap_line :: "int \<Rightarrow> bool \<Rightarrow> string list \<Rightarrow> string list \<times> string list" where
  "wrap_line width have_lines chunks =
     (let chunks1 = (if chunks \<noteq> [] \<and> blank (hd chunks) \<and> have_lines then tl chunks else chunks) in
      case take_fitting width 0 chunks1 of (cur, rest) \<Rightarrow>
      case (if rest \<noteq> [] \<and> width < int (length (hd rest)) \<and> cur = []
            then ([hd rest], tl rest) else (cur, rest)) of (cur2, rest2) \<Rightarrow>
      (if cur2 \<noteq> [] \<and> blank (last cur2) then butlast cur2 else cur2, rest2))"

lemma take_fitting_length: "length (snd (take_fitting w n cs)) \<le> length cs"
  by (induction cs arbitrary: n) (auto simp: case_prod_beta le_SucI)

lemma take_fitting_progress:
  "fst (take_fitting w n cs) \<noteq> [] \<Longrightarrow> length (snd (take_fitting w n cs)) < length cs"
  using take_fitting_length [of w _ "tl cs"]
  by (cases cs) (auto simp: case_prod_beta less_Suc_eq_le split: if_splits)

lemma take_fitting_stuck:
  "fst (take_fitting w 0 cs) = [] \<Longrightarrow> cs \<noteq> [] \<Longrightarrow>
     snd (take_fitting w 0 cs) = cs \<and> w < int (length (hd cs))"
  by (cases cs) (auto simp: case_prod_beta split: if_splits)

lemma wrap_line_shorter:
  assumes "chunks \<noteq> []"
  shows "length (snd (wrap_line w h chunks)) < length chunks"
proof -
  define chunks1 where
    "chunks1 = (if chunks \<noteq> [] \<and> blank (hd chunks) \<and> h then tl chunks else chunks)"
  define cur where "cur = fst (take_fitting w 0 chunks1)"
  define rest where "rest = snd (take_fitting w 0 chunks1)"
  define rest2 where
    "rest2 = (if rest \<noteq> [] \<and> w < int (length (hd rest)) \<and> cur = [] then tl rest else rest)"
  have out: "snd (wrap_line w h chunks) = rest2"
    by (simp add: wrap_line_def Let_def case_prod_beta chunks1_def cur_def rest_def rest2_def)
  have le1: "length chunks1 \<le> length chunks"
    by (simp add: chunks1_def)
  have le2: "length rest \<le> length chunks1"
    unfolding rest_def by (rule take_fitting_length)
  have le3: "length rest2 \<le> length rest"
    by (simp add: rest2_def)
  show ?thesis
  proof (cases "chunks1 = chunks")
    case False
    then have "length chunks1 < length chunks"
      using assms by (auto simp: chunks1_def split: if_splits)
    with le2 le3 show ?thesis unfolding out by linarith
  next
    case same: True
    show ?thesis
    proof (cases "cur = []")
      case False
      then have "length rest < length chunks1"
        unfolding cur_def rest_def by (rule take_fitting_progress)
      with le3 same show ?thesis unfolding out by simp
    next
      case True
      then have "rest = chunks1 \<and> w < int (length (hd chunks1))"
        unfolding cur_def rest_def using assms same by (intro take_fitting_stuck) simp_all
      then have "rest2 = tl chunks"
        using True same assms by (simp add: rest2_def)
      then show ?thesis unfolding out using assms by simp
    qed
  qed
qed

function wrap_chunks :: "string \<Rightarrow> string \<Rightarrow> string list \<Rightarrow> string list \<Rightarrow> string list" where
  "wrap_chunks initial_indent subsequent_indent lines chunks =
     (if chunks = [] then lines
      else
        let indent = (if lines \<noteq> [] then subsequent_indent else initial_indent);
            width = 100 - int (length indent)
        in case wrap_line width (lines \<noteq> []) chunks of (cur_line, rest) \<Rightarrow>
           wrap_chunks initial_indent subsequent_indent
             (if cur_line \<noteq> [] then lines @ [indent @ concat cur_line] else lines) rest)"
  by pat_completeness auto
termination
  apply (relation "measure (\<lambda>(i, s, l, c). length c)")
   apply simp
  subgoal for i s l c x xa xb y
    using wrap_line_shorter [of c xa "l \<noteq> []"] by (metis in_measure old.prod.case snd_conv)
  done

declare wrap_chunks.simps [simp del]

definition fill :: "string \<Rightarrow> string \<Rightarrow> string \<Rightarrow> string" where
  "fill initial_indent subsequent_indent text =
     join NL (wrap_chunks initial_indent subsequent_indent [] (split_chunks (munge_whitespace text)))"

section \<open>Error reports\<close>

text \<open>
  \<^verbatim>\<open>format_dict(details, indent)\<close>: a key whose value is a dictionary opens a nested
  block, two spaces deeper; any other value is one wrapped \<^verbatim>\<open>key: value\<close> paragraph.
\<close>

fun format_dict :: "(string \<times> json) list \<Rightarrow> string \<Rightarrow> string" where
  "format_dict [] indent = []"
| "format_dict ((key, val) # rest) indent =
     (case val of
        JDict sub \<Rightarrow> indent @ key @ '':'' @ NL @ format_dict sub (indent @ ''  '')
      | _ \<Rightarrow> fill indent (indent @ ''  '') (key @ '': '' @ py_str val) @ NL)
     @ format_dict rest indent"

text \<open>
  \<^verbatim>\<open>unwrap_error_with_hosts(error_obj)\<close>: the id, description, details and nodes of an
  error object, looking one level into an \<^verbatim>\<open>errorOnNodes\<close> wrapper.
\<close>

definition unwrap_error_with_hosts :: "json \<Rightarrow> error + (json \<times> json \<times> json \<times> json)" where
  "unwrap_error_with_hosts error_obj =
     (case py_get error_obj ''id'' JNull of Inl e \<Rightarrow> Inl e | Inr error_id \<Rightarrow>
      case py_get error_obj ''description'' JNull of Inl e \<Rightarrow> Inl e | Inr description \<Rightarrow>
      case py_get error_obj ''details'' (JDict []) of Inl e \<Rightarrow> Inl e | Inr details \<Rightarrow>
      if \<not> py_eq error_id (JStr ''errorOnNodes'') then Inr (error_id, description, details, JList [])
      else
        case py_contains ''error'' details of Inl e \<Rightarrow> Inl e | Inr found \<Rightarrow>
        if \<not> found then Inr (error_id, description, details, JList [])
        else
          case py_getitem details ''error'' of Inl e \<Rightarrow> Inl e | Inr inner \<Rightarrow>
          case py_getitem inner ''id'' of Inl e \<Rightarrow> Inl e | Inr inner_id \<Rightarrow>
          case py_getitem inner ''description'' of Inl e \<Rightarrow> Inl e | Inr inner_description \<Rightarrow>
          case py_getitem details ''hostnames'' of Inl e \<Rightarrow> Inl e | Inr nodes \<Rightarrow>
          case py_get inner ''details'' (JDict []) of Inl e \<Rightarrow> Inl e | Inr inner_details \<Rightarrow>
          Inr (inner_id, inner_description, inner_details, nodes))"

text \<open>
  \<^verbatim>\<open>'\n    '.join(sorted(nodes))\<close>: the items must be strings (anything else cannot be
  ordered or joined).
\<close>

fun str_items :: "json list \<Rightarrow> error + string list" where
  "str_items [] = Inr []"
| "str_items (JStr s # vs) = (case str_items vs of Inl e \<Rightarrow> Inl e | Inr ss \<Rightarrow> Inr (s # ss))"
| "str_items (_ # vs) = Inl TypeError"

definition join_sorted_nodes :: "json \<Rightarrow> error + string" where
  "join_sorted_nodes nodes =
     (case py_iter nodes of Inl e \<Rightarrow> Inl e | Inr items \<Rightarrow>
      case str_items items of Inl e \<Rightarrow> Inl e | Inr names \<Rightarrow>
      Inr (join (NL @ ''    '') (sort names)))"

text \<open>\<^verbatim>\<open>format_error(response)\<close>.\<close>

definition format_error :: "json \<Rightarrow> error + string" where
  "format_error response =
     (case py_contains ''error'' response of Inl e \<Rightarrow> Inl e | Inr present \<Rightarrow>
      if \<not> present then Inr ''Error: unexpected server response''
      else
        case py_getitem response ''error'' of Inl e \<Rightarrow> Inl e | Inr error_obj \<Rightarrow>
        case unwrap_error_with_hosts error_obj of Inl e \<Rightarrow> Inl e
        | Inr (error_id, descr, details, nodes) \<Rightarrow>
        case (case details of JDict kvs \<Rightarrow> Inr (format_dict kvs ''    '') | _ \<Rightarrow> Inl AttributeError) of
          Inl e \<Rightarrow> Inl e
        | Inr details_str0 \<Rightarrow>
        let details_str = (if details_str0 \<noteq> [] then ''  details:'' @ NL @ details_str0
                           else details_str0) in
        case (if py_truthy nodes
              then (case join_sorted_nodes nodes of Inl e \<Rightarrow> Inl e
                    | Inr joined \<Rightarrow> Inr (''  nodes:'' @ NL @ ''    '' @ joined))
              else Inr []) of
          Inl e \<Rightarrow> Inl e
        | Inr nodes_str \<Rightarrow>
        case descr of
          JStr d \<Rightarrow>
            Inr (''Error:'' @ NL @ ''  id: '' @ py_str error_id @ NL @ nodes_str @ NL
                 @ fill ''  '' ''    '' (''description: '' @ d) @ NL @ details_str)
        | _ \<Rightarrow> Inl TypeError)"

section \<open>The process environment and HTTP exchanges\<close>

text \<open>
  \<^verbatim>\<open>os.environ\<close> is a map from names to values. What the \<^verbatim>\<open>requests\<close> library
  gives back is a \<open>reply\<close>: the call raises (no answer), or it returns a response. A
  response carries what the script reads of it: the status code, the body text, the
  headers (names in lower case), and the body as \<^verbatim>\<open>json.loads\<close> and
  \<^verbatim>\<open>eTree.fromstring\<close> decode it (\<open>None\<close> where the decoder raises; of an XML
  document the script reads the attributes of the root element only).
\<close>

type_synonym environ = "string \<rightharpoonup> string"

record response =
  status_code :: nat
  body_text :: string
  headers :: "(string \<times> string) list"
  json_of_text :: "json option"
  xml_of_text :: "(string \<times> string) list option"

datatype reply = NoAnswer | Answer response

datatype http_method = GET | PUT | POST

datatype payload = NoBody | JsonBody json | YamlBody json

text \<open>
  What the script does to the outside, in order: a request (method, URL, Basic-auth
  pair, body), a line written by \<^verbatim>\<open>log\<close>, a \<^verbatim>\<open>time.sleep\<close>.
\<close>

datatype event =
    Http http_method string "(string \<times> string) option" payload
  | Log string
  | Sleep nat

type_synonym 'a io = "event list \<times> (error + 'a)"

text \<open>\<^verbatim>\<open>r.ok\<close>: the status is no client error and no server error.\<close>

definition ok :: "response \<Rightarrow> bool" where
  "ok r = (\<not> (400 \<le> status_code r \<and> status_code r < 600))"

definition PASSPHRASE_USERNAME :: string where
  "PASSPHRASE_USERNAME = ''onepanel''"

definition EMERGENCY_PASSPHRASE_VARIABLE :: string where
  "EMERGENCY_PASSPHRASE_VARIABLE = ''ONEPANEL_EMERGENCY_PASSPHRASE''"

definition API :: string where
  "API = ''https://127.0.0.1:9443''"

definition get_emergency_passphrase :: "environ \<Rightarrow> error + string" where
  "get_emergency_passphrase env =
     (case env EMERGENCY_PASSPHRASE_VARIABLE of
        None \<Rightarrow> Inl (MissingVariableError EMERGENCY_PASSPHRASE_VARIABLE)
      | Some passphrase \<Rightarrow> Inr passphrase)"

definition set_emergency_passphrase :: "string \<Rightarrow> reply \<Rightarrow> unit io" where
  "set_emergency_passphrase passphrase reply =
     (let sent = [Http PUT (API @ ''/api/v3/onepanel/emergency_passphrase'') None
                    (JsonBody (JDict [(''newPassphrase'', JStr passphrase)]))] in
      case reply of
        NoAnswer \<Rightarrow> (sent, Inl RequestException)
      | Answer r \<Rightarrow>
          if status_code r = 401 \<or> status_code r = 403
          then (sent, Inl (AuthenticationError
                  (''Could not set Onepanel emergency passphrase due to authentication error: ''
                   @ dec_nat (status_code r) @ '' '' @ body_text r)))
          else if \<not> ok r
          then (sent, Inl (RuntimeError
                  (''Could not set Onepanel emergency passphrase: ''
                   @ dec_nat (status_code r) @ '' '' @ body_text r)))
          else (sent, Inr ()))"

definition do_auth_request ::
  "environ \<Rightarrow> http_method \<Rightarrow> string \<Rightarrow> payload \<Rightarrow> reply \<Rightarrow> response io" where
  "do_auth_request env meth url body reply =
     (case get_emergency_passphrase env of
        Inl e \<Rightarrow> ([], Inl e)
      | Inr passphrase \<Rightarrow>
          let sent = [Http meth url (Some (PASSPHRASE_USERNAME, passphrase)) body] in
          case reply of
            NoAnswer \<Rightarrow> (sent, Inl RequestException)
          | Answer r \<Rightarrow>
              if status_code r = 401 \<or> status_code r = 403
              then (sent, Inl (AuthenticationError
                      (''Authentication error.'' @ NL
                       @ ''Please ensure that valid emergency passphrase is present'' @ NL
                       @ ''in the '' @ EMERGENCY_PASSPHRASE_VARIABLE @ '' environment variable'')))
              else (sent, Inr r))"

section \<open>The batch configuration\<close>

text \<open>
  \<^verbatim>\<open>get_batch_config()\<close>. The YAML decoder is a parameter: it maps the text of
  \<^verbatim>\<open>ONEZONE_CONFIG\<close> (the empty text when the variable is not set) to a document, or
  raises.
\<close>

definition get_batch_config :: "(string \<Rightarrow> error + json) \<Rightarrow> environ \<Rightarrow> error + json" where
  "get_batch_config yaml_safe_load env =
     (case yaml_safe_load (case env ''ONEZONE_CONFIG'' of None \<Rightarrow> [] | Some blob \<Rightarrow> blob) of
        Inl e \<Rightarrow> Inl e
      | Inr batch_config \<Rightarrow>
          if \<not> py_truthy batch_config then Inr (JDict [])
          else
            case py_get batch_config ''onepanel'' (JDict []) of Inl e \<Rightarrow> Inl e
            | Inr onepanel_config \<Rightarrow>
            case py_contains ''interactiveDeployment'' onepanel_config of Inl e \<Rightarrow> Inl e
            | Inr present \<Rightarrow>
            if present then Inr batch_config
            else
              (case (onepanel_config, batch_config) of
                 (JDict kvs, JDict entries) \<Rightarrow>
                   Inr (JDict (dict_set entries ''onepanel''
                          (JDict (dict_set kvs ''interactiveDeployment'' (JBool False)))))
               | _ \<Rightarrow> Inl TypeError))"

section \<open>Deploying: \<^verbatim>\<open>configure\<close>\<close>

text \<open>\<^verbatim>\<open>format_step(step)\<close>: the step must split at \<^verbatim>\<open>:\<close> into exactly two parts.\<close>

fun format_step :: "json \<Rightarrow> error + string" where
  "format_step (JStr step) =
     (case split_on CHR '':'' step of
        [service, action] \<Rightarrow> Inr (''* '' @ service @ '': '' @ action)
      | _ \<Rightarrow> Inl ValueError)"
| "format_step _ = Inl AttributeError"

text \<open>
  The first part of \<^verbatim>\<open>configure\<close>, up to the task's location: the passphrase is set
  (a rejected authentication there means an existing deployment), then the configuration
  is posted. \<open>AlreadyConfigured\<close> is the script's \<^verbatim>\<open>return False\<close>.
\<close>

datatype submission = AlreadyConfigured | TaskHandle string

definition configure_submit :: "environ \<Rightarrow> json \<Rightarrow> reply \<Rightarrow> reply \<Rightarrow> submission io" where
  "configure_submit env config put_reply post_reply =
     (case get_emergency_passphrase env of
        Inl e \<Rightarrow> ([], Inl e)
      | Inr passphrase \<Rightarrow>
          case set_emergency_passphrase passphrase put_reply of
            (ev1, Inl (AuthenticationError m)) \<Rightarrow> (ev1, Inr AlreadyConfigured)
          | (ev1, Inl e) \<Rightarrow> (ev1, Inl e)
          | (ev1, Inr u) \<Rightarrow>
              case do_auth_request env POST (API @ ''/api/v3/onepanel/zone/configuration'')
                     (YamlBody config) post_reply of
                (ev2, Inl e) \<Rightarrow> (ev1 @ ev2, Inl e)
              | (ev2, Inr r) \<Rightarrow>
                  if status_code r = 409 then (ev1 @ ev2, Inr AlreadyConfigured)
                  else if \<not> ok r
                  then (ev1 @ ev2, Inl (RuntimeError
                          (''Failed to start configuration process, the response was:'' @ NL
                           @ ''  code: '' @ dec_nat (status_code r) @ NL
                           @ ''  body: '' @ body_text r @ NL
                           @ ''For more information please check the logs.'')))
                  else
                    case map_of (headers r) ''location'' of
                      None \<Rightarrow> (ev1 @ ev2, Inl KeyError)
                    | Some loc \<Rightarrow> (ev1 @ ev2, Inr (TaskHandle loc)))"

text \<open>
  The \<^verbatim>\<open>for step in resp.get('steps', [])\<close> loop: \<open>steps\<close> is the list kept from the
  poll before, \<open>items\<close> what is left of the new one. A step equal to the head of the kept
  list is dropped from it without a word; any other step is logged.
\<close>

fun report_steps :: "json \<Rightarrow> json list \<Rightarrow> json io" where
  "report_steps steps [] = ([], Inr steps)"
| "report_steps steps (step # items) =
     (case (if py_truthy steps
            then (case py_first steps of Inl e \<Rightarrow> Inl e | Inr head \<Rightarrow> Inr (py_eq step head))
            else Inr False) of
        Inl e \<Rightarrow> ([], Inl e)
      | Inr True \<Rightarrow>
          (case py_rest steps of
             Inl e \<Rightarrow> ([], Inl e)
           | Inr steps' \<Rightarrow> report_steps steps' items)
      | Inr False \<Rightarrow>
          (case format_step step of
             Inl e \<Rightarrow> ([], Inl e)
           | Inr line \<Rightarrow>
               (case report_steps steps items of (ev, res) \<Rightarrow> (Log line # ev, res))))"

text \<open>The local variables of the polling loop.\<close>

record poll_state =
  status :: json
  steps :: json
  resp :: json

text \<open>One run of the body of \<^verbatim>\<open>while status == 'running'\<close>, on the reply to its GET.\<close>

definition configure_iteration :: "environ \<Rightarrow> string \<Rightarrow> reply \<Rightarrow> poll_state \<Rightarrow> poll_state io" where
  "configure_iteration env loc reply st =
     (case do_auth_request env GET (API @ loc) NoBody reply of
        (ev, Inl e) \<Rightarrow> (ev, Inl e)
      | (ev, Inr r) \<Rightarrow>
          if \<not> ok r
          then (ev, Inl (RuntimeError
                  (''Unexpected configuration error'' @ NL @ body_text r
                   @ ''For more information please check the logs.'')))
          else
            case json_of_text r of
              None \<Rightarrow> (ev, Inl JSONDecodeError)
            | Some doc \<Rightarrow>
                case py_get doc ''status'' (JStr ''error'') of Inl e \<Rightarrow> (ev, Inl e)
                | Inr new_status \<Rightarrow>
                case py_get doc ''steps'' (JList []) of Inl e \<Rightarrow> (ev, Inl e)
                | Inr new_steps \<Rightarrow>
                case py_iter new_steps of Inl e \<Rightarrow> (ev, Inl e)
                | Inr items \<Rightarrow>
                case report_steps (steps st) items of
                  (ev2, Inl e) \<Rightarrow> (ev @ ev2, Inl e)
                | (ev2, Inr left) \<Rightarrow>
                    (ev @ ev2 @ [Sleep 1],
                     Inr \<lparr>status = new_status, steps = new_steps, resp = doc\<rparr>))"

text \<open>What follows the loop: anything but \<^verbatim>\<open>ok\<close> raises the formatted error.\<close>

definition configure_finish :: "poll_state \<Rightarrow> error + bool" where
  "configure_finish st =
     (if \<not> py_eq (status st) (JStr ''ok'')
      then (case format_error (resp st) of Inl e \<Rightarrow> Inl e | Inr report \<Rightarrow> Inl (RuntimeError report))
      else Inr True)"

text \<open>
  The loop itself, over the replies the server gives to the successive GETs. The loop has
  no bound: where the replies run out while the status is still \<^verbatim>\<open>running\<close>, the
  result is \<open>None\<close> (the script is still polling).
\<close>

fun configure_loop :: "environ \<Rightarrow> string \<Rightarrow> reply list \<Rightarrow> poll_state \<Rightarrow> (bool io) option" where
  "configure_loop env loc [] st =
     (if py_eq (status st) (JStr ''running'') then None else Some ([], configure_finish st))"
| "configure_loop env loc (reply # replies) st =
     (if py_eq (status st) (JStr ''running'')
      then (case configure_iteration env loc reply st of
              (ev, Inl e) \<Rightarrow> Some (ev, Inl e)
            | (ev, Inr st') \<Rightarrow>
                (case configure_loop env loc replies st' of
                   None \<Rightarrow> None
                 | Some (ev', res) \<Rightarrow> Some (ev @ ev', res)))
      else Some ([], configure_finish st))"

definition configure_poll :: "environ \<Rightarrow> string \<Rightarrow> reply list \<Rightarrow> (bool io) option" where
  "configure_poll env loc replies =
     (case configure_loop env loc replies
             \<lparr>status = JStr ''running'', steps = JList [], resp = JDict []\<rparr> of
        None \<Rightarrow> None
      | Some (ev, res) \<Rightarrow> Some (Log (NL @ ''Configuring Onezone:'') # ev, res))"

text \<open>\<^verbatim>\<open>configure(config)\<close>, on the replies to its PUT, its POST and its GETs.\<close>

definition configure :: "environ \<Rightarrow> json \<Rightarrow> reply \<Rightarrow> reply \<Rightarrow> reply list \<Rightarrow> (bool io) option" where
  "configure env config put_reply post_reply replies =
     (case configure_submit env config put_reply post_reply of
        (ev, Inl e) \<Rightarrow> Some (ev, Inl e)
      | (ev, Inr AlreadyConfigured) \<Rightarrow> Some (ev, Inr False)
      | (ev, Inr (TaskHandle loc)) \<Rightarrow>
          (case configure_poll env loc replies of
             None \<Rightarrow> None
           | Some (ev', res) \<Rightarrow> Some (ev @ ev', res)))"

section \<open>Waiting for an existing deployment: \<^verbatim>\<open>wait_for_workers\<close>\<close>

definition NAGIOS_URL :: string where
  "NAGIOS_URL = ''https://127.0.0.1:9443/api/v3/onepanel/zone/nagios''"

text \<open>
  \<^verbatim>\<open>nagios_up(url, log_errors)\<close>: whatever the request raises is caught, and so is a
  status that is not \<^verbatim>\<open>ok\<close>; the decoding of the body stands outside the \<^verbatim>\<open>try\<close>.
\<close>

definition nagios_up :: "environ \<Rightarrow> string \<Rightarrow> bool \<Rightarrow> reply \<Rightarrow> bool io" where
  "nagios_up env url log_errors reply =
     (case do_auth_request env GET url NoBody reply of
        (ev, Inl e) \<Rightarrow>
          (ev @ (if log_errors then [Log ''Onepanel service is not reachable - retrying...''] else []),
           Inr False)
      | (ev, Inr r) \<Rightarrow>
          if \<not> ok r
          then (ev @ (if log_errors
                      then [Log (''Onepanel service is reachable, but nagios is not reporting ''
                                 @ ''an OK status - retrying...'')]
                      else []),
                Inr False)
          else
            case xml_of_text r of
              None \<Rightarrow> (ev, Inl ParseError)
            | Some attrib \<Rightarrow>
                case map_of attrib ''status'' of
                  None \<Rightarrow> (ev, Inl KeyError)
                | Some health \<Rightarrow> (ev, Inr (health = ''ok'')))"

text \<open>
  The loop of \<^verbatim>\<open>wait_for_workers\<close>, at \<open>retries\<close> failed attempts so far, over the
  replies to the successive health checks; \<open>None\<close> where the replies run out before the
  loop ends.
\<close>

fun wait_loop :: "environ \<Rightarrow> reply list \<Rightarrow> nat \<Rightarrow> (unit io) option" where
  "wait_loop env [] retries = None"
| "wait_loop env (reply # replies) retries =
     (case nagios_up env NAGIOS_URL (retries mod 10 = 9) reply of
        (ev, Inl e) \<Rightarrow> Some (ev, Inl e)
      | (ev, Inr True) \<Rightarrow> Some (ev, Inr ())
      | (ev, Inr False) \<Rightarrow>
          if Suc retries = 120
          then Some (ev @ [Sleep 1],
                     Inl (RuntimeError ''Timeout waiting for the Onepanel service readiness''))
          else (case wait_loop env replies (Suc retries) of
                  None \<Rightarrow> None
                | Some (ev', res) \<Rightarrow> Some (ev @ Sleep 1 # ev', res)))"

definition wait_for_workers :: "environ \<Rightarrow> reply list \<Rightarrow> (unit io) option" where
  "wait_for_workers env replies = wait_loop env replies 0"

section \<open>Example data\<close>

text \<open>An environment holding the passphrase, and a successful reply carrying a task document.\<close>

definition passphrase_env :: "string \<Rightarrow> environ" where
  "passphrase_env p = [EMERGENCY_PASSPHRASE_VARIABLE \<mapsto> p]"

definition empty_env :: environ where
  "empty_env = Map.empty"

definition config_env :: "string \<Rightarrow> environ" where
  "config_env blob = [''ONEZONE_CONFIG'' \<mapsto> blob]"

text \<open>
  What the YAML decoder gives on four configuration texts (the empty text decodes to
  \<^verbatim>\<open>None\<close>); any other text is taken as malformed here.
\<close>

definition sample_yaml :: "string \<Rightarrow> error + json" where
  "sample_yaml blob =
     (if blob = [] then Inr JNull
      else if blob = ''{}'' then Inr (JDict [])
      else if blob = ''cluster: {domainName: oz.example}''
      then Inr (JDict [(''cluster'', JDict [(''domainName'', JStr ''oz.example'')])])
      else if blob = ''onepanel: {interactiveDeployment: true}''
      then Inr (JDict [(''onepanel'', JDict [(''interactiveDeployment'', JBool True)])])
      else Inl ParseError)"

definition task_reply :: "json \<Rightarrow> reply" where
  "task_reply doc = Answer \<lparr>status_code = 200, body_text = [], headers = [],
     json_of_text = Some doc, xml_of_text = None\<rparr>"

definition plain_reply :: "nat \<Rightarrow> string \<Rightarrow> (string \<times> string) list \<Rightarrow> reply" where
  "plain_reply code body hdrs = Answer \<lparr>status_code = code, body_text = body, headers = hdrs,
     json_of_text = None, xml_of_text = None\<rparr>"

text \<open>
  The error object of an \<^verbatim>\<open>errorOnNodes\<close> wrapper around an inner error with id \<open>x\<close> and
  description \<open>d\<close>, on the hosts \<open>hosts\<close>.
\<close>

definition on_nodes_error :: "string \<Rightarrow> string \<Rightarrow> string list \<Rightarrow> json" where
  "on_nodes_error x d hosts =
     JDict [(''id'', JStr ''errorOnNodes''),
            (''details'', JDict [(''error'', JDict [(''id'', JStr x), (''description'', JStr d)]),
                                 (''hostnames'', JList (map JStr hosts))])]"

text \<open>
  An error object with a description longer than a line and with nested details.
\<close>

definition storage_error :: json where
  "storage_error =
     JDict [(''id'', JStr ''storageTestFailed''),
            (''description'', JStr (''Cannot verify the storage: the test file written on one of the ''
               @ ''hosts could not be read back from the other hosts of the cluster within the time limit.'')),
            (''details'', JDict [(''reason'', JStr ''timeout''),
               (''storage'', JDict [(''hint'', JStr (''Check that the mount point is the same directory ''
                   @ ''on every host and that it is writable by the service user, then try again.'')),
                  (''retries'', JNum 3)])])]"

section \<open>Observing a run of the polling loop\<close>

text \<open>The requests among the events of a run.\<close>

fun is_request :: "event \<Rightarrow> bool" where
  "is_request (Http m url auth body) = True"
| "is_request _ = False"

definition requests :: "event list \<Rightarrow> nat" where
  "requests ev = length (filter is_request ev)"

text \<open>
  The status the loop reads off a reply: the reply is an answer that
  \<^verbatim>\<open>do_auth_request\<close> lets through and that is \<^verbatim>\<open>ok\<close>, its body decodes to a
  dictionary, and the status is the entry \<^verbatim>\<open>status\<close> (\<^verbatim>\<open>error\<close> where there is none).
\<close>

definition reply_status :: "reply \<Rightarrow> json option" where
  "reply_status reply =
     (case reply of
        NoAnswer \<Rightarrow> None
      | Answer r \<Rightarrow>
          if status_code r = 401 \<or> status_code r = 403 \<or> \<not> ok r then None
          else (case json_of_text r of
                  Some (JDict d) \<Rightarrow>
                    Some (case map_of d ''status'' of None \<Rightarrow> JStr ''error'' | Some v \<Rightarrow> v)
                | _ \<Rightarrow> None))"

definition still_running :: "reply \<Rightarrow> bool" where
  "still_running reply = (reply_status reply = Some (JStr ''running''))"

text \<open>
  The local variables of the loop at its start, and the events and the variables after
  the body has run on each of the replies in turn (\<open>None\<close> where the loop ends or raises
  before the last of them).
\<close>

definition initial_state :: poll_state where
  "initial_state = \<lparr>status = JStr ''running'', steps = JList [], resp = JDict []\<rparr>"

fun poll_run :: "environ \<Rightarrow> string \<Rightarrow> reply list \<Rightarrow> poll_state \<Rightarrow> (event list \<times> poll_state) option" where
  "poll_run env loc [] st = Some ([], st)"
| "poll_run env loc (reply # replies) st =
     (if py_eq (status st) (JStr ''running'')
      then (case configure_iteration env loc reply st of
              (ev, Inl e) \<Rightarrow> None
            | (ev, Inr st') \<Rightarrow>
                (case poll_run env loc replies st' of
                   None \<Rightarrow> None
                 | Some (ev', st'') \<Rightarrow> Some (ev @ ev', st'')))
      else None)"

text \<open>
  A step is well formed when it is a string that splits at \<^verbatim>\<open>:\<close> into exactly two parts.
  The steps of a reply are the items the loop draws from the entry \<^verbatim>\<open>steps\<close> of its
  document.
\<close>

definition well_formed_step :: "json \<Rightarrow> bool" where
  "well_formed_step v = (case v of JStr s \<Rightarrow> length (split_on CHR '':'' s) = 2 | _ \<Rightarrow> False)"

definition reply_steps :: "reply \<Rightarrow> json list option" where
  "reply_steps reply =
     (case reply of
        NoAnswer \<Rightarrow> None
      | Answer r \<Rightarrow>
          if status_code r = 401 \<or> status_code r = 403 \<or> \<not> ok r then None
          else (case json_of_text r of
                  Some (JDict d) \<Rightarrow>
                    (case py_iter (case map_of d ''steps'' of None \<Rightarrow> JList [] | Some v \<Rightarrow> v) of
                       Inl e \<Rightarrow> None
                     | Inr items \<Rightarrow> Some items)
                | _ \<Rightarrow> None))"

definition steps_well_formed :: "reply \<Rightarrow> bool" where
  "steps_well_formed reply =
     (case reply_steps reply of None \<Rightarrow> False | Some items \<Rightarrow> list_all well_formed_step items)"

text \<open>What the loop keeps of the steps of the poll before: all of it well formed.\<close>

definition kept_well_formed :: "json \<Rightarrow> bool" where
  "kept_well_formed s = (case py_iter s of Inl e \<Rightarrow> True | Inr items \<Rightarrow> list_all well_formed_step items)"

text \<open>
  The line the script writes for a well-formed step, and the steps of a new list that
  it writes: those that are not matched, in order, against the head of the list kept
  from the poll before.
\<close>

definition step_line :: "string \<Rightarrow> string" where
  "step_line step =
     (case split_on CHR '':'' step of
        [service, action] \<Rightarrow> ''* '' @ service @ '': '' @ action
      | _ \<Rightarrow> [])"

fun fresh_steps :: "string list \<Rightarrow> string list \<Rightarrow> string list" where
  "fresh_steps kept [] = []"
| "fresh_steps [] (s # items) = s # fresh_steps [] items"
| "fresh_steps (k # kept) (s # items) =
     (if s = k then fresh_steps kept items else s # fresh_steps (k # kept) items)"

section \<open>Observing a run of the wait loop\<close>

text \<open>
  The events of a run of failed attempts that starts at \<open>retries\<close> failed attempts: each
  attempt is one call of \<^verbatim>\<open>nagios_up\<close> followed by a sleep of one second.
\<close>

fun failed_attempts :: "environ \<Rightarrow> nat \<Rightarrow> reply list \<Rightarrow> event list" where
  "failed_attempts env retries [] = []"
| "failed_attempts env retries (reply # replies) =
     fst (nagios_up env NAGIOS_URL (retries mod 10 = 9) reply)
     @ Sleep 1 # failed_attempts env (Suc retries) replies"

text \<open>
  A reply is unhealthy when \<^verbatim>\<open>nagios_up\<close> returns \<^verbatim>\<open>False\<close> on it, healthy when it returns
  \<^verbatim>\<open>True\<close> (on some replies it does neither: it raises).
\<close>

definition unhealthy :: "environ \<Rightarrow> reply \<Rightarrow> bool" where
  "unhealthy env reply = (snd (nagios_up env NAGIOS_URL False reply) = Inr False)"

definition healthy :: "environ \<Rightarrow> reply \<Rightarrow> bool" where
  "healthy env reply = (snd (nagios_up env NAGIOS_URL False reply) = Inr True)"

text \<open>The sleeps among the events of a run.\<close>

fun is_sleep :: "event \<Rightarrow> bool" where
  "is_sleep (Sleep n) = True"
| "is_sleep _ = False"

definition sleeps :: "event list \<Rightarrow> nat" where
  "sleeps ev = length (filter is_sleep ev)"

text \<open>
  What a reply to a health check says, read off the reply itself. It reports ok when
  its status is no client or server error and the root of its well-formed document has
  the attribute \<^verbatim>\<open>status\<close> with the value \<^verbatim>\<open>ok\<close>. It reports not ok when there is no
  answer, when the status is a client or server error, or when the root of its well-formed
  document has the attribute \<^verbatim>\<open>status\<close> with another value.
\<close>

definition reports_ok :: "reply \<Rightarrow> bool" where
  "reports_ok reply =
     (case reply of
        NoAnswer \<Rightarrow> False
      | Answer r \<Rightarrow>
          (status_code r < 400 \<or> 600 \<le> status_code r) \<and>
          (case xml_of_text r of
             None \<Rightarrow> False
           | Some attrib \<Rightarrow> map_of attrib ''status'' = Some ''ok''))"

definition reports_not_ok :: "reply \<Rightarrow> bool" where
  "reports_not_ok reply =
     (case reply of
        NoAnswer \<Rightarrow> True
      | Answer r \<Rightarrow>
          (400 \<le> status_code r \<and> status_code r < 600) \<or>
          (case xml_of_text r of
             None \<Rightarrow> False
           | Some attrib \<Rightarrow>
               (case map_of attrib ''status'' of
                  None \<Rightarrow> False
                | Some health \<Rightarrow> health \<noteq> ''ok'')))"

text \<open>
  The events of one attempt under the passphrase \<open>p\<close>: the request and, at every tenth
  attempt in a row, the line written for an attempt that was not answered or was answered
  with a client or server error. The events of a run of failed attempts: each attempt
  followed by a sleep of one second.
\<close>

definition attempt_trace :: "string \<Rightarrow> nat \<Rightarrow> reply \<Rightarrow> event list" where
  "attempt_trace p retries reply =
     Http GET ''https://127.0.0.1:9443/api/v3/onepanel/zone/nagios'' (Some (''onepanel'', p)) NoBody
     # (if retries mod 10 = 9
        then (case reply of
                NoAnswer \<Rightarrow> [Log ''Onepanel service is not reachable - retrying...'']
              | Answer r \<Rightarrow>
                  if status_code r = 401 \<or> status_code r = 403
                  then [Log ''Onepanel service is not reachable - retrying...'']
                  else if 400 \<le> status_code r \<and> status_code r < 600
                  then [Log ''Onepanel service is reachable, but nagios is not reporting an OK status - retrying...'']
                  else [])
        else [])"

fun failed_trace :: "string \<Rightarrow> nat \<Rightarrow> reply list \<Rightarrow> event list" where
  "failed_trace p retries [] = []"
| "failed_trace p retries (reply # replies) =
     attempt_trace p retries reply @ Sleep 1 # failed_trace p (Suc retries) replies"

text \<open>A reply to a health check: its status code and the attributes of the root element.\<close>

definition health_reply :: "nat \<Rightarrow> (string \<times> string) list option \<Rightarrow> reply" where
  "health_reply code root = Answer \<lparr>status_code = code, body_text = [], headers = [],
     json_of_text = None, xml_of_text = root\<rparr>"

section \<open>Basic facts\<close>

lemma py_eq_JStr [simp]: "py_eq a (JStr s) = (a = JStr s)"
  by (cases a) auto

lemma do_auth_request_answer:
  "env EMERGENCY_PASSPHRASE_VARIABLE = Some p \<Longrightarrow> status_code r \<noteq> 401 \<Longrightarrow>
   status_code r \<noteq> 403 \<Longrightarrow>
   do_auth_request env m url b (Answer r) = ([Http m url (Some (PASSPHRASE_USERNAME, p)) b], Inr r)"
  by (simp add: do_auth_request_def get_emergency_passphrase_def)

text \<open>One iteration on a successful reply whose body decodes to a dictionary.\<close>

lemma configure_iteration_doc:
  assumes "env EMERGENCY_PASSPHRASE_VARIABLE = Some p" "ok r"
    and "json_of_text r = Some (JDict d)"
  shows "configure_iteration env loc (Answer r) st =
     (let new_status = (case map_of d ''status'' of None \<Rightarrow> JStr ''error'' | Some v \<Rightarrow> v);
          new_steps = (case map_of d ''steps'' of None \<Rightarrow> JList [] | Some v \<Rightarrow> v);
          sent = Http GET (API @ loc) (Some (PASSPHRASE_USERNAME, p)) NoBody
      in case py_iter new_steps of
           Inl e \<Rightarrow> ([sent], Inl e)
         | Inr items \<Rightarrow>
             (case report_steps (steps st) items of
                (ev2, Inl e) \<Rightarrow> (sent # ev2, Inl e)
              | (ev2, Inr left) \<Rightarrow>
                  (sent # ev2 @ [Sleep 1],
                   Inr \<lparr>status = new_status, steps = new_steps, resp = JDict d\<rparr>)))"
proof -
  have "status_code r \<noteq> 401" "status_code r \<noteq> 403"
    using assms(2) by (auto simp: ok_def)
  then show ?thesis
    using assms
    by (simp add: configure_iteration_def do_auth_request_answer Let_def
        split: sum.splits prod.splits)
qed

lemma map_of_dict_set: "map_of (dict_set kvs k v) = (map_of kvs)(k \<mapsto> v)"
  by (induction kvs) (auto simp: fun_eq_iff)

lemma str_items_strings: "str_items (map JStr names) = Inr names"
  by (induction names) auto

lemma dec_nat_500: "dec_nat 500 = ''500''"
  by code_simp

lemma fill_bad_thing:
  "fill ''  '' ''    '' ''description: bad thing'' = ''  description: bad thing''"
  by code_simp

lemma fill_storage_description:
  "fill ''  '' ''    '' (''description: '' @ ''Cannot verify the storage: the test file written on one of the ''
               @ ''hosts could not be read back from the other hosts of the cluster within the time limit.'')
   = ''  description: Cannot verify the storage: the test file written on one of the hosts could not be''
     @ NL @ ''    read back from the other hosts of the cluster within the time limit.''"
  by code_simp

lemma format_dict_storage_details:
  "format_dict [(''reason'', JStr ''timeout''),
               (''storage'', JDict [(''hint'', JStr (''Check that the mount point is the same directory ''
                   @ ''on every host and that it is writable by the service user, then try again.'')),
                  (''retries'', JNum 3)])] ''    ''
   = ''    reason: timeout'' @ NL
     @ ''    storage:'' @ NL
     @ ''      hint: Check that the mount point is the same directory on every host and that it is writable''
     @ NL @ ''        by the service user, then try again.'' @ NL
     @ ''      retries: 3'' @ NL"
  by code_simp

section \<open>Progress reports while polling\<close>

text \<open>
  C1. The server answers the three GETs of a task with: running and steps \<open>[a]\<close>; running
  and steps \<open>[a, b]\<close>; ok (with no steps, or with the same two steps). Both steps split
  into a service and an action. Then the poll returns \<^verbatim>\<open>True\<close>, and what it writes
  after the heading is the line of \<open>a\<close>, once, after the first GET, and the line of \<open>b\<close>,
  once, after the second; nothing is written after the third.
\<close>

theorem poll_logs_each_step_once:
  assumes env: "env EMERGENCY_PASSPHRASE_VARIABLE = Some p"
    and r1: "ok r1" "json_of_text r1 = Some (JDict d1)"
      "map_of d1 ''status'' = Some (JStr ''running'')"
      "map_of d1 ''steps'' = Some (JList [JStr a])"
    and r2: "ok r2" "json_of_text r2 = Some (JDict d2)"
      "map_of d2 ''status'' = Some (JStr ''running'')"
      "map_of d2 ''steps'' = Some (JList [JStr a, JStr b])"
    and r3: "ok r3" "json_of_text r3 = Some (JDict d3)"
      "map_of d3 ''status'' = Some (JStr ''ok'')"
      "map_of d3 ''steps'' = None \<or> map_of d3 ''steps'' = Some (JList [JStr a, JStr b])"
    and a: "format_step (JStr a) = Inr line_a"
    and b: "format_step (JStr b) = Inr line_b"
  shows "configure_poll env loc [Answer r1, Answer r2, Answer r3] =
     Some ([Log (NL @ ''Configuring Onezone:''),
            Http GET (API @ loc) (Some (PASSPHRASE_USERNAME, p)) NoBody, Log line_a, Sleep 1,
            Http GET (API @ loc) (Some (PASSPHRASE_USERNAME, p)) NoBody, Log line_b, Sleep 1,
            Http GET (API @ loc) (Some (PASSPHRASE_USERNAME, p)) NoBody, Sleep 1],
           Inr True)"
proof -
  note it = configure_iteration_doc [where env = env and p = p and loc = loc, OF env]
  note defs = configure_poll_def it [OF r1(1,2)] it [OF r2(1,2)] it [OF r3(1,2)]
    r1(3,4) r2(3,4) r3(3) a b configure_finish_def Let_def
  from r3(4) show ?thesis
  proof
    assume "map_of d3 ''steps'' = None"
    then show ?thesis by (simp add: defs del: format_step.simps)
  next
    assume "map_of d3 ''steps'' = Some (JList [JStr a, JStr b])"
    then show ?thesis by (simp add: defs del: format_step.simps)
  qed
qed

theorem poll_logs_each_step_once_witness:
  "configure_poll (passphrase_env ''secret'') ''/tasks/7''
     [task_reply (JDict [(''status'', JStr ''running''),
        (''steps'', JList [JStr ''service_couchbase:configure''])]),
      task_reply (JDict [(''status'', JStr ''running''),
        (''steps'', JList [JStr ''service_couchbase:configure'', JStr ''service_oz_worker:start''])]),
      task_reply (JDict [(''status'', JStr ''ok''),
        (''steps'', JList [JStr ''service_couchbase:configure'', JStr ''service_oz_worker:start''])])] =
   Some ([Log (NL @ ''Configuring Onezone:''),
          Http GET ''https://127.0.0.1:9443/tasks/7'' (Some (''onepanel'', ''secret'')) NoBody,
          Log ''* service_couchbase: configure'', Sleep 1,
          Http GET ''https://127.0.0.1:9443/tasks/7'' (Some (''onepanel'', ''secret'')) NoBody,
          Log ''* service_oz_worker: start'', Sleep 1,
          Http GET ''https://127.0.0.1:9443/tasks/7'' (Some (''onepanel'', ''secret'')) NoBody,
          Sleep 1],
         Inr True)"
  using poll_logs_each_step_once [of "passphrase_env ''secret''" "''secret''"
      "\<lparr>status_code = 200, body_text = [], headers = [],
        json_of_text = Some (JDict [(''status'', JStr ''running''),
          (''steps'', JList [JStr ''service_couchbase:configure''])]), xml_of_text = None\<rparr>"
      "[(''status'', JStr ''running''), (''steps'', JList [JStr ''service_couchbase:configure''])]"
      "''service_couchbase:configure''"
      "\<lparr>status_code = 200, body_text = [], headers = [],
        json_of_text = Some (JDict [(''status'', JStr ''running''),
          (''steps'', JList [JStr ''service_couchbase:configure'', JStr ''service_oz_worker:start''])]),
        xml_of_text = None\<rparr>"
      "[(''status'', JStr ''running''),
        (''steps'', JList [JStr ''service_couchbase:configure'', JStr ''service_oz_worker:start''])]"
      "''service_oz_worker:start''"
      "\<lparr>status_code = 200, body_text = [], headers = [],
        json_of_text = Some (JDict [(''status'', JStr ''ok''),
          (''steps'', JList [JStr ''service_couchbase:configure'', JStr ''service_oz_worker:start''])]),
        xml_of_text = None\<rparr>"
      "[(''status'', JStr ''ok''),
        (''steps'', JList [JStr ''service_couchbase:configure'', JStr ''service_oz_worker:start''])]"
      "''* service_couchbase: configure''" "''* service_oz_worker: start''" "''/tasks/7''"]
  by (simp add: task_reply_def passphrase_env_def ok_def API_def PASSPHRASE_USERNAME_def)

section \<open>Formatting an error that occurred on several nodes\<close>

text \<open>
  C2 (as the script behaves). \<^verbatim>\<open>format_error\<close> is given a response whose \<^verbatim>\<open>error\<close> is
  an \<^verbatim>\<open>errorOnNodes\<close> wrapper around an inner error with id \<open>x\<close> and description \<open>d\<close>, on
  a non-empty list of hosts. The report has the line of the inner id, then a \<^verbatim>\<open>nodes:\<close>
  heading followed by the host names in sorted order, one per line and indented by four
  spaces (they are not joined by commas), then the wrapped description.
\<close>

theorem format_error_on_nodes:
  assumes "hosts \<noteq> []"
  shows "format_error (JDict [(''error'', on_nodes_error x d hosts)]) =
     Inr (''Error:'' @ NL @ ''  id: '' @ x @ NL
          @ ''  nodes:'' @ NL @ ''    '' @ join (NL @ ''    '') (sort hosts) @ NL
          @ fill ''  '' ''    '' (''description: '' @ d) @ NL)"
  using assms
  by (simp add: format_error_def on_nodes_error_def unwrap_error_with_hosts_def
      join_sorted_nodes_def str_items_strings py_str_def)

text \<open>
  On the object of the claim the report is the one below; it has no line
  \<^verbatim>\<open>nodes: h1, h2\<close>.
\<close>

theorem format_error_on_nodes_counterexample:
  "format_error (JDict [(''error'', on_nodes_error ''X'' ''bad thing'' [''h1'', ''h2''])]) =
     Inr (''Error:'' @ NL @ ''  id: X'' @ NL @ ''  nodes:'' @ NL @ ''    h1'' @ NL @ ''    h2'' @ NL
          @ ''  description: bad thing'' @ NL)
   \<and> \<not> substring ''nodes: h1, h2''
        (''Error:'' @ NL @ ''  id: X'' @ NL @ ''  nodes:'' @ NL @ ''    h1'' @ NL @ ''    h2'' @ NL
          @ ''  description: bad thing'' @ NL)"
  by (simp add: format_error_def on_nodes_error_def unwrap_error_with_hosts_def
      join_sorted_nodes_def py_str_def fill_bad_thing)

theorem format_error_on_nodes_witness:
  "format_error (JDict [(''error'', on_nodes_error ''X'' ''bad thing'' [''h2'', ''h1''])]) =
     Inr (''Error:'' @ NL @ ''  id: X'' @ NL @ ''  nodes:'' @ NL @ ''    h1'' @ NL @ ''    h2'' @ NL
          @ ''  description: bad thing'' @ NL)"
  using format_error_on_nodes [of "[''h2'', ''h1'']" "''X''" "''bad thing''"]
  by (simp add: fill_bad_thing)

section \<open>Submitting the configuration\<close>

text \<open>
  C3 (as the script behaves). With the passphrase in the environment and both requests
  answered: a 401 or 403 to the PUT of the passphrase gives \<open>AlreadyConfigured\<close> with no
  POST; any other status from 400 to 599 there raises a \<^verbatim>\<open>RuntimeError\<close> carrying that
  status and body, again with no POST; otherwise the configuration is posted, and of its
  answer a 401 or 403 raises an \<^verbatim>\<open>AuthenticationError\<close>, a 409 gives
  \<open>AlreadyConfigured\<close>, any other status from 400 to 599 raises a \<^verbatim>\<open>RuntimeError\<close>
  carrying the status and the body, and any other status gives the task handle of the
  \<^verbatim>\<open>location\<close> header (a \<^verbatim>\<open>KeyError\<close> where the header is missing).
\<close>

theorem submit_outcomes:
  assumes "env EMERGENCY_PASSPHRASE_VARIABLE = Some p"
  shows "configure_submit env config (Answer put) (Answer post) =
     (let put_sent = Http PUT (API @ ''/api/v3/onepanel/emergency_passphrase'') None
                       (JsonBody (JDict [(''newPassphrase'', JStr p)]));
          post_sent = Http POST (API @ ''/api/v3/onepanel/zone/configuration'')
                        (Some (PASSPHRASE_USERNAME, p)) (YamlBody config)
      in if status_code put = 401 \<or> status_code put = 403 then ([put_sent], Inr AlreadyConfigured)
         else if 400 \<le> status_code put \<and> status_code put < 600
         then ([put_sent], Inl (RuntimeError (''Could not set Onepanel emergency passphrase: ''
                 @ dec_nat (status_code put) @ '' '' @ body_text put)))
         else if status_code post = 401 \<or> status_code post = 403
         then ([put_sent, post_sent], Inl (AuthenticationError
                 (''Authentication error.'' @ NL
                  @ ''Please ensure that valid emergency passphrase is present'' @ NL
                  @ ''in the '' @ EMERGENCY_PASSPHRASE_VARIABLE @ '' environment variable'')))
         else if status_code post = 409 then ([put_sent, post_sent], Inr AlreadyConfigured)
         else if 400 \<le> status_code post \<and> status_code post < 600
         then ([put_sent, post_sent], Inl (RuntimeError
                 (''Failed to start configuration process, the response was:'' @ NL
                  @ ''  code: '' @ dec_nat (status_code post) @ NL
                  @ ''  body: '' @ body_text post @ NL
                  @ ''For more information please check the logs.'')))
         else (case map_of (headers post) ''location'' of
                 None \<Rightarrow> ([put_sent, post_sent], Inl KeyError)
               | Some loc \<Rightarrow> ([put_sent, post_sent], Inr (TaskHandle loc))))"
  using assms
  by (simp add: configure_submit_def set_emergency_passphrase_def do_auth_request_def
      get_emergency_passphrase_def ok_def Let_def split: option.splits)

text \<open>
  Three runs against the claim as it was stated: a 500 to the PUT (no POST follows, and
  the result is an error), a 401 to the POST (an authentication error, which carries
  neither status nor body), a 201 to the POST without the header.
\<close>

theorem submit_put_failure_counterexample:
  "configure_submit (passphrase_env ''secret'') (JDict [])
      (plain_reply 500 ''boom'' []) (plain_reply 201 [] [(''location'', ''/tasks/7'')]) =
     ([Http PUT ''https://127.0.0.1:9443/api/v3/onepanel/emergency_passphrase'' None
         (JsonBody (JDict [(''newPassphrase'', JStr ''secret'')]))],
      Inl (RuntimeError ''Could not set Onepanel emergency passphrase: 500 boom''))
   \<and> configure_submit (passphrase_env ''secret'') (JDict [])
      (plain_reply 204 [] []) (plain_reply 401 ''denied'' []) =
     ([Http PUT ''https://127.0.0.1:9443/api/v3/onepanel/emergency_passphrase'' None
         (JsonBody (JDict [(''newPassphrase'', JStr ''secret'')])),
       Http POST ''https://127.0.0.1:9443/api/v3/onepanel/zone/configuration''
         (Some (''onepanel'', ''secret'')) (YamlBody (JDict []))],
      Inl (AuthenticationError (''Authentication error.'' @ NL
             @ ''Please ensure that valid emergency passphrase is present'' @ NL
             @ ''in the ONEPANEL_EMERGENCY_PASSPHRASE environment variable'')))
   \<and> configure_submit (passphrase_env ''secret'') (JDict [])
      (plain_reply 204 [] []) (plain_reply 201 [] []) =
     ([Http PUT ''https://127.0.0.1:9443/api/v3/onepanel/emergency_passphrase'' None
         (JsonBody (JDict [(''newPassphrase'', JStr ''secret'')])),
       Http POST ''https://127.0.0.1:9443/api/v3/onepanel/zone/configuration''
         (Some (''onepanel'', ''secret'')) (YamlBody (JDict []))],
      Inl KeyError)"
  by (simp add: configure_submit_def set_emergency_passphrase_def do_auth_request_def
      get_emergency_passphrase_def ok_def passphrase_env_def plain_reply_def API_def
      PASSPHRASE_USERNAME_def EMERGENCY_PASSPHRASE_VARIABLE_def dec_nat_500)

theorem submit_outcomes_witness:
  "configure_submit (passphrase_env ''secret'') (JDict [(''cluster'', JNull)])
      (plain_reply 204 [] []) (plain_reply 201 [] [(''location'', ''/tasks/7'')]) =
     ([Http PUT ''https://127.0.0.1:9443/api/v3/onepanel/emergency_passphrase'' None
         (JsonBody (JDict [(''newPassphrase'', JStr ''secret'')])),
       Http POST ''https://127.0.0.1:9443/api/v3/onepanel/zone/configuration''
         (Some (''onepanel'', ''secret'')) (YamlBody (JDict [(''cluster'', JNull)]))],
      Inr (TaskHandle ''/tasks/7''))
   \<and> configure_submit (passphrase_env ''secret'') (JDict [(''cluster'', JNull)])
      (plain_reply 403 [] []) (plain_reply 201 [] [(''location'', ''/tasks/7'')]) =
     ([Http PUT ''https://127.0.0.1:9443/api/v3/onepanel/emergency_passphrase'' None
         (JsonBody (JDict [(''newPassphrase'', JStr ''secret'')]))],
      Inr AlreadyConfigured)"
  using submit_outcomes [of "passphrase_env ''secret''" "''secret''" "JDict [(''cluster'', JNull)]"
      "\<lparr>status_code = 204, body_text = [], headers = [], json_of_text = None, xml_of_text = None\<rparr>"
      "\<lparr>status_code = 201, body_text = [], headers = [(''location'', ''/tasks/7'')], json_of_text = None, xml_of_text = None\<rparr>"]
    submit_outcomes [of "passphrase_env ''secret''" "''secret''" "JDict [(''cluster'', JNull)]"
      "\<lparr>status_code = 403, body_text = [], headers = [], json_of_text = None, xml_of_text = None\<rparr>"
      "\<lparr>status_code = 201, body_text = [], headers = [(''location'', ''/tasks/7'')], json_of_text = None, xml_of_text = None\<rparr>"]
  by (simp add: passphrase_env_def plain_reply_def API_def PASSPHRASE_USERNAME_def)

section \<open>The interactive-deployment mark\<close>

text \<open>
  C7 (as the script behaves). The configuration text decodes to a non-empty dictionary
  whose \<^verbatim>\<open>onepanel\<close> entry is absent (\<open>kvs\<close> is then empty) or is the dictionary \<open>kvs\<close>.
  Then the request is that dictionary with \<^verbatim>\<open>onepanel\<close> set to \<open>kvs\<close> with
  \<^verbatim>\<open>interactiveDeployment\<close> added: the value it had, \<^verbatim>\<open>False\<close> where it had none.
\<close>

theorem batch_config_default:
  assumes "yaml_safe_load (case env ''ONEZONE_CONFIG'' of None \<Rightarrow> [] | Some blob \<Rightarrow> blob)
             = Inr (JDict entries)"
    and "entries \<noteq> []"
    and "map_of entries ''onepanel'' = None \<and> kvs = []
         \<or> map_of entries ''onepanel'' = Some (JDict kvs)"
  shows "\<exists>entries' kvs'.
      get_batch_config yaml_safe_load env = Inr (JDict entries')
      \<and> map_of entries' = (map_of entries)(''onepanel'' \<mapsto> JDict kvs')
      \<and> map_of kvs' = (map_of kvs)(''interactiveDeployment'' \<mapsto>
            (case map_of kvs ''interactiveDeployment'' of None \<Rightarrow> JBool False | Some v \<Rightarrow> v))"
proof (cases "map_of kvs ''interactiveDeployment''")
  case None
  show ?thesis
    apply (rule exI [of _ "dict_set entries ''onepanel'' (JDict (dict_set kvs ''interactiveDeployment'' (JBool False)))"])
    apply (rule exI [of _ "dict_set kvs ''interactiveDeployment'' (JBool False)"])
    using assms None
    by (auto simp: get_batch_config_def map_of_dict_set)
next
  case (Some v)
  then have "map_of entries ''onepanel'' = Some (JDict kvs)"
    using assms(3) by auto
  then show ?thesis
    apply -
    apply (rule exI [of _ entries])
    apply (rule exI [of _ kvs])
    using assms Some
    by (auto simp: get_batch_config_def fun_eq_iff)
qed

text \<open>
  An empty configuration (no text, or a text that decodes to an empty dictionary) gives
  the empty request, which has no \<^verbatim>\<open>onepanel\<close> entry at all.
\<close>

theorem batch_config_empty_counterexample:
  "get_batch_config sample_yaml empty_env = Inr (JDict [])
   \<and> get_batch_config sample_yaml (config_env ''{}'') = Inr (JDict [])
   \<and> py_contains ''onepanel'' (JDict []) = Inr False"
  by (simp add: get_batch_config_def sample_yaml_def empty_env_def config_env_def)

theorem batch_config_default_witness:
  "get_batch_config sample_yaml (config_env ''cluster: {domainName: oz.example}'')
    = Inr (JDict [(''cluster'', JDict [(''domainName'', JStr ''oz.example'')]),
                  (''onepanel'', JDict [(''interactiveDeployment'', JBool False)])])
   \<and> get_batch_config sample_yaml (config_env ''onepanel: {interactiveDeployment: true}'')
    = Inr (JDict [(''onepanel'', JDict [(''interactiveDeployment'', JBool True)])])"
  using batch_config_default [of sample_yaml
      "config_env ''cluster: {domainName: oz.example}''"
      "[(''cluster'', JDict [(''domainName'', JStr ''oz.example'')])]" "[]"]
    batch_config_default [of sample_yaml
      "config_env ''onepanel: {interactiveDeployment: true}''"
      "[(''onepanel'', JDict [(''interactiveDeployment'', JBool True)])]"
      "[(''interactiveDeployment'', JBool True)]"]
  by (simp add: get_batch_config_def sample_yaml_def config_env_def)

section \<open>The passphrase\<close>

text \<open>
  C8. \<^verbatim>\<open>get_emergency_passphrase\<close> raises exactly when the variable is absent, and what
  it raises is the \<^verbatim>\<open>MissingVariableError\<close> of that variable. An empty passphrase is
  returned as it is, and the requests go out with it: \<^verbatim>\<open>do_auth_request\<close> authenticates
  as \<^verbatim>\<open>onepanel\<close> with the empty password, \<^verbatim>\<open>set_emergency_passphrase\<close> sets the empty
  passphrase.
\<close>

theorem passphrase_error_iff_absent:
  "((\<exists>e. get_emergency_passphrase env = Inl e) \<longleftrightarrow> env EMERGENCY_PASSPHRASE_VARIABLE = None)
   \<and> (env EMERGENCY_PASSPHRASE_VARIABLE = None \<longrightarrow>
        get_emergency_passphrase env = Inl (MissingVariableError EMERGENCY_PASSPHRASE_VARIABLE))
   \<and> (env EMERGENCY_PASSPHRASE_VARIABLE = Some [] \<longrightarrow>
        get_emergency_passphrase env = Inr []
        \<and> fst (do_auth_request env meth url body reply)
            = [Http meth url (Some (PASSPHRASE_USERNAME, [])) body]
        \<and> fst (set_emergency_passphrase [] reply)
            = [Http PUT (API @ ''/api/v3/onepanel/emergency_passphrase'') None
                 (JsonBody (JDict [(''newPassphrase'', JStr [])]))])"
  by (auto simp: get_emergency_passphrase_def do_auth_request_def set_emergency_passphrase_def
      Let_def split: option.splits reply.splits)

theorem passphrase_error_iff_absent_witness:
  "get_emergency_passphrase empty_env = Inl (MissingVariableError ''ONEPANEL_EMERGENCY_PASSPHRASE'')
   \<and> get_emergency_passphrase (passphrase_env []) = Inr []
   \<and> fst (do_auth_request (passphrase_env []) POST ''https://127.0.0.1:9443/api/v3/onepanel/zone/configuration''
             (YamlBody (JDict [])) (plain_reply 201 [] [(''location'', ''/tasks/7'')]))
       = [Http POST ''https://127.0.0.1:9443/api/v3/onepanel/zone/configuration''
            (Some (''onepanel'', [])) (YamlBody (JDict []))]"
  using passphrase_error_iff_absent [of empty_env]
    passphrase_error_iff_absent [of "passphrase_env []" POST
      "''https://127.0.0.1:9443/api/v3/onepanel/zone/configuration''" "YamlBody (JDict [])"
      "plain_reply 201 [] [(''location'', ''/tasks/7'')]"]
  by (simp add: passphrase_env_def empty_env_def PASSPHRASE_USERNAME_def
      EMERGENCY_PASSPHRASE_VARIABLE_def)

section \<open>The polling loop stops at the first status that is not running\<close>

lemma requests_simps [simp]:
  "requests [] = 0"
  "requests (Http m url auth body # ev) = Suc (requests ev)"
  "requests (Log l # ev) = requests ev"
  "requests (Sleep n # ev) = requests ev"
  "requests (ev @ ev') = requests ev + requests ev'"
  by (simp_all add: requests_def)

lemma report_steps_no_request: "requests (fst (report_steps s items)) = 0"
  by (induction s items rule: report_steps.induct)
    (auto split: sum.splits prod.splits bool.splits if_splits)

lemma do_auth_request_requests: "requests (fst (do_auth_request env m url b reply)) \<le> 1"
  by (auto simp: do_auth_request_def Let_def split: sum.splits reply.splits)

lemma do_auth_request_Inr:
  "do_auth_request env m url b reply = (ev, Inr r) \<Longrightarrow>
     reply = Answer r \<and> requests ev = 1 \<and> status_code r \<noteq> 401 \<and> status_code r \<noteq> 403"
  by (auto simp: do_auth_request_def Let_def split: sum.splits reply.splits if_splits)

lemma configure_iteration_Inl:
  "configure_iteration env loc reply st = (ev, Inl e) \<Longrightarrow> requests ev \<le> 1"
  using do_auth_request_requests [of env GET "API @ loc" NoBody reply]
    report_steps_no_request
  apply (auto simp: configure_iteration_def split: prod.splits sum.splits if_splits option.splits)
  by (metis fst_conv add.right_neutral)+


lemma configure_iteration_Inr:
  assumes "configure_iteration env loc reply st = (ev, Inr st')"
  shows "requests ev = 1 \<and> reply_status reply = Some (status st')"
proof -
  obtain ev1 r where d: "do_auth_request env GET (API @ loc) NoBody reply = (ev1, Inr r)"
    using assms
    by (auto simp: configure_iteration_def split: prod.splits sum.splits)
  from do_auth_request_Inr [OF d]
  have r: "reply = Answer r" "requests ev1 = 1" "status_code r \<noteq> 401" "status_code r \<noteq> 403"
    by auto
  have okr: "ok r"
    using assms d by (auto simp: configure_iteration_def split: if_splits)
  obtain doc where doc: "json_of_text r = Some doc"
    using assms d okr by (auto simp: configure_iteration_def split: option.splits)
  obtain kvs where kvs: "doc = JDict kvs"
    using assms d okr doc
    by (cases doc) (auto simp: configure_iteration_def)
  obtain items ev2 left where
    run: "py_iter (case map_of kvs ''steps'' of None \<Rightarrow> JList [] | Some v \<Rightarrow> v) = Inr items"
      "report_steps (steps st) items = (ev2, Inr left)"
    using assms d okr doc kvs
    by (auto simp: configure_iteration_def split: sum.splits prod.splits)
  have ev: "ev = ev1 @ ev2 @ [Sleep 1]"
    and st': "status st' = (case map_of kvs ''status'' of None \<Rightarrow> JStr ''error'' | Some v \<Rightarrow> v)"
    using assms d okr doc kvs run by (auto simp: configure_iteration_def)
  have "requests ev2 = 0"
    using report_steps_no_request [of "steps st" items] run(2) by simp
  then have "requests ev = 1"
    using r(2) ev by simp
  moreover have "reply_status reply = Some (status st')"
    using r okr doc kvs st' by (simp add: reply_status_def)
  ultimately show ?thesis by simp
qed

lemma configure_loop_requests:
  "configure_loop env loc replies st = Some (ev, res) \<Longrightarrow>
     requests ev \<le> length replies \<and> list_all still_running (take (requests ev - 1) replies)"
proof (induction replies arbitrary: st ev res)
  case Nil
  then show ?case by (auto split: if_splits)
next
  case (Cons reply replies)
  show ?case
  proof (cases "py_eq (status st) (JStr ''running'')")
    case False
    with Cons.prems show ?thesis by auto
  next
    case True
    obtain ev1 out where it: "configure_iteration env loc reply st = (ev1, out)"
      by (cases "configure_iteration env loc reply st")
    show ?thesis
    proof (cases out)
      case (Inl e)
      with Cons.prems True it have "ev = ev1" by auto
      moreover have "requests ev1 \<le> 1"
        using configure_iteration_Inl it Inl by blast
      ultimately show ?thesis
        by (cases "requests ev1") auto
    next
      case (Inr st')
      from configure_iteration_Inr it Inr
      have one: "requests ev1 = 1" and seen: "reply_status reply = Some (status st')"
        by blast+
      obtain ev' where rest: "configure_loop env loc replies st' = Some (ev', res)"
        and ev: "ev = ev1 @ ev'"
        using Cons.prems True it Inr by (auto split: option.splits)
      from Cons.IH [OF rest]
      have ih: "requests ev' \<le> length replies"
        "list_all still_running (take (requests ev' - 1) replies)"
        by auto
      show ?thesis
      proof (cases "requests ev'")
        case 0
        then show ?thesis using ev one by simp
      next
        case (Suc n)
        then have "py_eq (status st') (JStr ''running'')"
          using rest by (cases replies) (auto split: if_splits)
        then have "still_running reply"
          using seen by (simp add: still_running_def)
        then show ?thesis
          using ev one ih Suc by simp
      qed
    qed
  qed
qed

lemma configure_loop_None:
  "configure_loop env loc replies st = None \<Longrightarrow>
     py_eq (status st) (JStr ''running'') \<and> list_all still_running replies"
proof (induction replies arbitrary: st)
  case Nil
  then show ?case by (auto split: if_splits)
next
  case (Cons reply replies)
  then have run: "py_eq (status st) (JStr ''running'')"
    by (auto split: if_splits)
  obtain ev1 st' where it: "configure_iteration env loc reply st = (ev1, Inr st')"
    and rest: "configure_loop env loc replies st' = None"
    using Cons.prems run by (auto split: prod.splits sum.splits option.splits)
  from Cons.IH [OF rest] configure_iteration_Inr [OF it]
  show ?case using run by (simp add: still_running_def)
qed

text \<open>
  C5. Whatever the replies: while the poll has not ended, every reply so far carried the
  status \<^verbatim>\<open>running\<close>; and when it has ended, it has sent no more GETs than there are
  replies, and every GET but the last was answered with the status \<^verbatim>\<open>running\<close>. So a
  GET is sent only after replies that all said \<^verbatim>\<open>running\<close>, and the GET whose reply
  says anything else (or fails) is the last one.
\<close>

theorem poll_stops_at_first_other_status:
  "(configure_poll env loc replies = None \<longrightarrow> list_all still_running replies)
   \<and> (\<forall>ev res. configure_poll env loc replies = Some (ev, res) \<longrightarrow>
         requests ev \<le> length replies
         \<and> list_all still_running (take (requests ev - 1) replies))"
proof (intro conjI allI impI)
  assume "configure_poll env loc replies = None"
  then show "list_all still_running replies"
    using configure_loop_None by (auto simp: configure_poll_def split: option.splits)
next
  fix ev res
  assume "configure_poll env loc replies = Some (ev, res)"
  then obtain ev' where "configure_loop env loc replies
      \<lparr>status = JStr ''running'', steps = JList [], resp = JDict []\<rparr> = Some (ev', res)"
    and "ev = Log (NL @ ''Configuring Onezone:'') # ev'"
    by (auto simp: configure_poll_def split: option.splits)
  then show "requests ev \<le> length replies"
    and "list_all still_running (take (requests ev - 1) replies)"
    using configure_loop_requests by auto
qed

theorem poll_stops_at_first_other_status_witness:
  "configure_poll (passphrase_env ''secret'') ''/tasks/7''
     [task_reply (JDict [(''status'', JStr ''running'')]),
      task_reply (JDict [(''status'', JStr ''stalled'')]),
      task_reply (JDict [(''status'', JStr ''running'')])] =
   Some ([Log (NL @ ''Configuring Onezone:''),
          Http GET ''https://127.0.0.1:9443/tasks/7'' (Some (''onepanel'', ''secret'')) NoBody,
          Sleep 1,
          Http GET ''https://127.0.0.1:9443/tasks/7'' (Some (''onepanel'', ''secret'')) NoBody,
          Sleep 1],
         Inl (RuntimeError ''Error: unexpected server response''))
   \<and> list_all still_running [task_reply (JDict [(''status'', JStr ''running'')])]"
proof -
  let ?replies = "[task_reply (JDict [(''status'', JStr ''running'')]),
      task_reply (JDict [(''status'', JStr ''stalled'')]),
      task_reply (JDict [(''status'', JStr ''running'')])]"
  let ?ev = "[Log (NL @ ''Configuring Onezone:''),
          Http GET ''https://127.0.0.1:9443/tasks/7'' (Some (''onepanel'', ''secret'')) NoBody,
          Sleep 1,
          Http GET ''https://127.0.0.1:9443/tasks/7'' (Some (''onepanel'', ''secret'')) NoBody,
          Sleep 1]"
  have run: "configure_poll (passphrase_env ''secret'') ''/tasks/7'' ?replies =
      Some (?ev, Inl (RuntimeError ''Error: unexpected server response''))"
    by (simp add: configure_poll_def configure_iteration_def do_auth_request_def
        get_emergency_passphrase_def passphrase_env_def task_reply_def ok_def API_def
        PASSPHRASE_USERNAME_def configure_finish_def format_error_def)
  from poll_stops_at_first_other_status [of "passphrase_env ''secret''" "''/tasks/7''" ?replies] run
  have "list_all still_running (take (requests ?ev - 1) ?replies)"
    by blast
  then show ?thesis
    using run by simp
qed

section \<open>The error report at the end of a poll\<close>

lemma configure_loop_append:
  "poll_run env loc pre st = Some (evp, st') \<Longrightarrow>
     configure_loop env loc (pre @ rest) st =
       (case configure_loop env loc rest st' of
          None \<Rightarrow> None
        | Some (ev, res) \<Rightarrow> Some (evp @ ev, res))"
proof (induction pre arbitrary: st evp)
  case Nil
  then show ?case by (auto split: option.splits)
next
  case (Cons reply pre)
  from Cons.prems obtain ev1 st1 ev2 where
    run: "py_eq (status st) (JStr ''running'')"
    and it: "configure_iteration env loc reply st = (ev1, Inr st1)"
    and rest: "poll_run env loc pre st1 = Some (ev2, st')"
    and evp: "evp = ev1 @ ev2"
    by (auto split: if_splits prod.splits sum.splits option.splits)
  show ?case
    using run it evp Cons.IH [OF rest]
    by (auto split: option.splits)
qed

lemma poll_run_last:
  "poll_run env loc (pre @ [reply]) st = Some (ev, st') \<Longrightarrow>
     \<exists>r. reply = Answer r \<and> ok r \<and> json_of_text r = Some (resp st')
        \<and> py_get (resp st') ''status'' (JStr ''error'') = Inr (status st')"
proof (induction pre arbitrary: st ev)
  case Nil
  then obtain ev1 where it: "configure_iteration env loc reply st = (ev1, Inr st')"
    by (auto split: if_splits prod.splits sum.splits)
  then obtain ev0 r where d: "do_auth_request env GET (API @ loc) NoBody reply = (ev0, Inr r)"
    by (auto simp: configure_iteration_def split: prod.splits sum.splits)
  have "reply = Answer r"
    using do_auth_request_Inr [OF d] by simp
  moreover have "ok r \<and> json_of_text r = Some (resp st')
      \<and> py_get (resp st') ''status'' (JStr ''error'') = Inr (status st')"
    using it d
    by (auto simp: configure_iteration_def split: if_splits option.splits sum.splits prod.splits)
  ultimately show ?case by blast
next
  case (Cons a pre)
  then show ?case
    by (auto split: if_splits prod.splits sum.splits option.splits)
qed

lemma format_error_absent:
  "map_of d ''error'' = None \<Longrightarrow> format_error (JDict d) = Inr ''Error: unexpected server response''"
  by (simp add: format_error_def)

lemma format_error_plain:
  assumes "map_of d ''error'' = Some (JDict e)"
    and "map_of e ''description'' = Some (JStr dsc)"
    and "map_of e ''details'' = None \<and> kvs = [] \<or> map_of e ''details'' = Some (JDict kvs)"
    and "map_of e ''id'' \<noteq> Some (JStr ''errorOnNodes'') \<or> map_of kvs ''error'' = None"
  shows "format_error (JDict d) =
     Inr (''Error:'' @ NL
          @ ''  id: '' @ py_str (case map_of e ''id'' of None \<Rightarrow> JNull | Some v \<Rightarrow> v) @ NL
          @ NL
          @ fill ''  '' ''    '' (''description: '' @ dsc) @ NL
          @ (if format_dict kvs ''    '' = [] then []
             else ''  details:'' @ NL @ format_dict kvs ''    ''))"
  using assms
  by (auto simp: format_error_def unwrap_error_with_hosts_def Let_def split: option.splits)

lemma format_error_wrapper:
  assumes "map_of d ''error'' = Some (JDict e)"
    and "map_of e ''id'' = Some (JStr ''errorOnNodes'')"
    and "map_of e ''details'' = Some (JDict wrapped)"
    and "map_of wrapped ''error'' = Some (JDict inner)"
    and "map_of wrapped ''hostnames'' = Some (JList (map JStr hosts))"
    and "map_of inner ''id'' = Some inner_id"
    and "map_of inner ''description'' = Some (JStr dsc)"
    and "map_of inner ''details'' = None \<and> kvs = [] \<or> map_of inner ''details'' = Some (JDict kvs)"
  shows "format_error (JDict d) =
     Inr (''Error:'' @ NL
          @ ''  id: '' @ py_str inner_id @ NL
          @ (if hosts = [] then []
             else ''  nodes:'' @ NL @ ''    '' @ join (NL @ ''    '') (sort hosts)) @ NL
          @ fill ''  '' ''    '' (''description: '' @ dsc) @ NL
          @ (if format_dict kvs ''    '' = [] then []
             else ''  details:'' @ NL @ format_dict kvs ''    ''))"
  using assms
  by (auto simp: format_error_def unwrap_error_with_hosts_def join_sorted_nodes_def
      str_items_strings Let_def split: option.splits)

text \<open>
  C4. The loop has handled the replies \<open>pre\<close> and then \<open>reply\<close>, and \<open>reply\<close>, with the
  document \<open>d\<close>, left a status that is neither \<^verbatim>\<open>running\<close> nor \<^verbatim>\<open>ok\<close> (whatever else it is;
  the status is the entry \<^verbatim>\<open>status\<close> of \<open>d\<close>, \<^verbatim>\<open>error\<close> where it has none). Then the poll
  ends there, whatever replies would follow, and it raises a \<^verbatim>\<open>RuntimeError\<close> whose
  message is the report of the \<^verbatim>\<open>error\<close> entry of \<open>d\<close>:
  \<^item> the generic message where \<open>d\<close> has no such entry;
  \<^item> for an error object with a description (a string) and with details that are absent
    or a dictionary: the id line, an empty line for the nodes, the wrapped description
    and, where there are any, the details under their heading;
  \<^item> for an \<^verbatim>\<open>errorOnNodes\<close> wrapper around such an inner error on a list of hosts: the
    same report of the inner error, with the sorted hosts under their heading.
\<close>

theorem poll_reports_error_of_last_reply:
  assumes "poll_run env loc (pre @ [reply]) initial_state = Some (ev, st)"
    and "status st \<noteq> JStr ''running''" and "status st \<noteq> JStr ''ok''"
    and "resp st = JDict d"
  shows "(\<exists>r. reply = Answer r \<and> json_of_text r = Some (JDict d))
     \<and> status st = (case map_of d ''status'' of None \<Rightarrow> JStr ''error'' | Some v \<Rightarrow> v)
     \<and> (map_of d ''error'' = None \<longrightarrow>
          configure_poll env loc (pre @ reply # later) =
            Some (Log (NL @ ''Configuring Onezone:'') # ev,
                  Inl (RuntimeError ''Error: unexpected server response'')))
     \<and> (map_of d ''error'' = Some (JDict e)
          \<and> map_of e ''description'' = Some (JStr dsc)
          \<and> (map_of e ''details'' = None \<and> kvs = [] \<or> map_of e ''details'' = Some (JDict kvs))
          \<and> (map_of e ''id'' \<noteq> Some (JStr ''errorOnNodes'') \<or> map_of kvs ''error'' = None) \<longrightarrow>
          configure_poll env loc (pre @ reply # later) =
            Some (Log (NL @ ''Configuring Onezone:'') # ev,
                  Inl (RuntimeError
                    (''Error:'' @ NL
                     @ ''  id: '' @ py_str (case map_of e ''id'' of None \<Rightarrow> JNull | Some v \<Rightarrow> v) @ NL
                     @ NL
                     @ fill ''  '' ''    '' (''description: '' @ dsc) @ NL
                     @ (if format_dict kvs ''    '' = [] then []
                        else ''  details:'' @ NL @ format_dict kvs ''    '')))))
     \<and> (map_of d ''error'' = Some (JDict w)
          \<and> map_of w ''id'' = Some (JStr ''errorOnNodes'')
          \<and> map_of w ''details'' = Some (JDict wrapped)
          \<and> map_of wrapped ''error'' = Some (JDict inner)
          \<and> map_of wrapped ''hostnames'' = Some (JList (map JStr hosts))
          \<and> map_of inner ''id'' = Some inner_id
          \<and> map_of inner ''description'' = Some (JStr inner_dsc)
          \<and> (map_of inner ''details'' = None \<and> inner_kvs = []
              \<or> map_of inner ''details'' = Some (JDict inner_kvs)) \<longrightarrow>
          configure_poll env loc (pre @ reply # later) =
            Some (Log (NL @ ''Configuring Onezone:'') # ev,
                  Inl (RuntimeError
                    (''Error:'' @ NL
                     @ ''  id: '' @ py_str inner_id @ NL
                     @ (if hosts = [] then []
                        else ''  nodes:'' @ NL @ ''    '' @ join (NL @ ''    '') (sort hosts)) @ NL
                     @ fill ''  '' ''    '' (''description: '' @ inner_dsc) @ NL
                     @ (if format_dict inner_kvs ''    '' = [] then []
                        else ''  details:'' @ NL @ format_dict inner_kvs ''    '')))))"
proof -
  from poll_run_last [OF assms(1)] obtain r where
    r: "reply = Answer r" "json_of_text r = Some (resp st)"
      "py_get (resp st) ''status'' (JStr ''error'') = Inr (status st)"
    by blast
  have fin: "configure_loop env loc later st = Some ([], configure_finish st)"
    using assms(2) by (cases later) auto
  have "configure_loop env loc ((pre @ [reply]) @ later) initial_state
      = Some (ev @ [], configure_finish st)"
    using configure_loop_append [OF assms(1), of later] fin by simp
  then have poll: "configure_poll env loc (pre @ reply # later)
      = Some (Log (NL @ ''Configuring Onezone:'') # ev, configure_finish st)"
    by (simp add: configure_poll_def initial_state_def)
  have f: "configure_finish st =
      (case format_error (JDict d) of Inl e \<Rightarrow> Inl e | Inr report \<Rightarrow> Inl (RuntimeError report))"
    using assms(3,4) by (simp add: configure_finish_def)
  have 1: "(\<exists>r. reply = Answer r \<and> json_of_text r = Some (JDict d))"
    using r assms(4) by auto
  have 2: "status st = (case map_of d ''status'' of None \<Rightarrow> JStr ''error'' | Some v \<Rightarrow> v)"
    using r(3) assms(4) by simp
  show ?thesis
    unfolding poll f
    using 1 2 by (auto simp: format_error_absent format_error_plain format_error_wrapper)
qed

theorem poll_reports_error_of_last_reply_witness:
  "configure_poll (passphrase_env ''secret'') ''/tasks/7''
     [task_reply (JDict [(''status'', JStr ''running'')]),
      task_reply (JDict [(''status'', JStr ''error''), (''error'', storage_error)]),
      task_reply (JDict [(''status'', JStr ''ok'')])] =
   Some ([Log (NL @ ''Configuring Onezone:''),
          Http GET ''https://127.0.0.1:9443/tasks/7'' (Some (''onepanel'', ''secret'')) NoBody,
          Sleep 1,
          Http GET ''https://127.0.0.1:9443/tasks/7'' (Some (''onepanel'', ''secret'')) NoBody,
          Sleep 1],
         Inl (RuntimeError
           (''Error:'' @ NL
            @ ''  id: storageTestFailed'' @ NL
            @ NL
            @ ''  description: Cannot verify the storage: the test file written on one of the hosts could not be''
            @ NL @ ''    read back from the other hosts of the cluster within the time limit.'' @ NL
            @ ''  details:'' @ NL
            @ ''    reason: timeout'' @ NL
            @ ''    storage:'' @ NL
            @ ''      hint: Check that the mount point is the same directory on every host and that it is writable''
            @ NL @ ''        by the service user, then try again.'' @ NL
            @ ''      retries: 3'' @ NL)))
   \<and> configure_poll (passphrase_env ''secret'') ''/tasks/7''
       [task_reply (JDict [(''status'', JStr ''failed'')])] =
     Some ([Log (NL @ ''Configuring Onezone:''),
            Http GET ''https://127.0.0.1:9443/tasks/7'' (Some (''onepanel'', ''secret'')) NoBody,
            Sleep 1],
           Inl (RuntimeError ''Error: unexpected server response''))
   \<and> configure_poll (passphrase_env ''secret'') ''/tasks/7''
       [task_reply (JDict [(''error'', on_nodes_error ''X'' ''bad thing'' [''h2'', ''h1''])])] =
     Some ([Log (NL @ ''Configuring Onezone:''),
            Http GET ''https://127.0.0.1:9443/tasks/7'' (Some (''onepanel'', ''secret'')) NoBody,
            Sleep 1],
           Inl (RuntimeError
             (''Error:'' @ NL @ ''  id: X'' @ NL @ ''  nodes:'' @ NL @ ''    h1'' @ NL @ ''    h2'' @ NL
              @ ''  description: bad thing'' @ NL)))"
proof -
  let ?env = "passphrase_env ''secret''"
  let ?get = "Http GET ''https://127.0.0.1:9443/tasks/7'' (Some (''onepanel'', ''secret'')) NoBody"
  let ?d1 = "[(''status'', JStr ''error''), (''error'', storage_error)]"
  let ?d2 = "[(''status'', JStr ''failed'')]"
  let ?d3 = "[(''error'', on_nodes_error ''X'' ''bad thing'' [''h2'', ''h1''])]"
  note defs = initial_state_def configure_iteration_def do_auth_request_def
      get_emergency_passphrase_def passphrase_env_def task_reply_def ok_def API_def
      PASSPHRASE_USERNAME_def
  have run1: "poll_run ?env ''/tasks/7''
      ([task_reply (JDict [(''status'', JStr ''running'')])] @ [task_reply (JDict ?d1)]) initial_state
      = Some ([?get, Sleep 1, ?get, Sleep 1],
              \<lparr>status = JStr ''error'', steps = JList [], resp = JDict ?d1\<rparr>)"
    by (simp add: defs)
  have run2: "poll_run ?env ''/tasks/7'' ([] @ [task_reply (JDict ?d2)]) initial_state
      = Some ([?get, Sleep 1], \<lparr>status = JStr ''failed'', steps = JList [], resp = JDict ?d2\<rparr>)"
    by (simp add: defs)
  have run3: "poll_run ?env ''/tasks/7'' ([] @ [task_reply (JDict ?d3)]) initial_state
      = Some ([?get, Sleep 1], \<lparr>status = JStr ''error'', steps = JList [], resp = JDict ?d3\<rparr>)"
    by (simp add: defs)
  have first: "configure_poll ?env ''/tasks/7''
      ([task_reply (JDict [(''status'', JStr ''running'')])] @ task_reply (JDict ?d1)
         # [task_reply (JDict [(''status'', JStr ''ok'')])]) =
      Some ([Log (NL @ ''Configuring Onezone:''), ?get, Sleep 1, ?get, Sleep 1],
         Inl (RuntimeError
           (''Error:'' @ NL
            @ ''  id: storageTestFailed'' @ NL
            @ NL
            @ ''  description: Cannot verify the storage: the test file written on one of the hosts could not be''
            @ NL @ ''    read back from the other hosts of the cluster within the time limit.'' @ NL
            @ ''  details:'' @ NL
            @ ''    reason: timeout'' @ NL
            @ ''    storage:'' @ NL
            @ ''      hint: Check that the mount point is the same directory on every host and that it is writable''
            @ NL @ ''        by the service user, then try again.'' @ NL
            @ ''      retries: 3'' @ NL)))"
    using poll_reports_error_of_last_reply [OF run1, of ?d1
        "[task_reply (JDict [(''status'', JStr ''ok'')])]"
        "[(''id'', JStr ''storageTestFailed''),
            (''description'', JStr (''Cannot verify the storage: the test file written on one of the ''
               @ ''hosts could not be read back from the other hosts of the cluster within the time limit.'')),
            (''details'', JDict [(''reason'', JStr ''timeout''),
               (''storage'', JDict [(''hint'', JStr (''Check that the mount point is the same directory ''
                   @ ''on every host and that it is writable by the service user, then try again.'')),
                  (''retries'', JNum 3)])])]"
        "''Cannot verify the storage: the test file written on one of the ''
               @ ''hosts could not be read back from the other hosts of the cluster within the time limit.''"
        "[(''reason'', JStr ''timeout''),
               (''storage'', JDict [(''hint'', JStr (''Check that the mount point is the same directory ''
                   @ ''on every host and that it is writable by the service user, then try again.'')),
                  (''retries'', JNum 3)])]"]
      fill_storage_description format_dict_storage_details
    by (simp add: storage_error_def py_str_def)
  have second: "configure_poll ?env ''/tasks/7'' ([] @ task_reply (JDict ?d2) # []) =
      Some ([Log (NL @ ''Configuring Onezone:''), ?get, Sleep 1],
            Inl (RuntimeError ''Error: unexpected server response''))"
    using poll_reports_error_of_last_reply [OF run2, of ?d2 "[]"] by simp
  have third: "configure_poll ?env ''/tasks/7'' ([] @ task_reply (JDict ?d3) # []) =
      Some ([Log (NL @ ''Configuring Onezone:''), ?get, Sleep 1],
            Inl (RuntimeError
             (''Error:'' @ NL @ ''  id: X'' @ NL @ ''  nodes:'' @ NL @ ''    h1'' @ NL @ ''    h2'' @ NL
              @ ''  description: bad thing'' @ NL)))"
    using poll_reports_error_of_last_reply [OF run3, where d = ?d3 and later = "[]"
        and w = "[(''id'', JStr ''errorOnNodes''),
            (''details'', JDict [(''error'', JDict [(''id'', JStr ''X''), (''description'', JStr ''bad thing'')]),
                                 (''hostnames'', JList (map JStr [''h2'', ''h1'']))])]"
        and wrapped = "[(''error'', JDict [(''id'', JStr ''X''), (''description'', JStr ''bad thing'')]),
                                 (''hostnames'', JList (map JStr [''h2'', ''h1'']))]"
        and inner = "[(''id'', JStr ''X''), (''description'', JStr ''bad thing'')]"
        and hosts = "[''h2'', ''h1'']" and inner_id = "JStr ''X''" and inner_dsc = "''bad thing''"
        and inner_kvs = "[]"]
      fill_bad_thing
    by (simp add: on_nodes_error_def py_str_def)
  show ?thesis
    using first second third by simp
qed

section \<open>Steps that do not split into a service and an action\<close>

lemma format_step_Inr: "format_step v = Inr line \<Longrightarrow> well_formed_step v"
  by (cases v) (auto simp: well_formed_step_def split: list.splits)

lemma format_step_well_formed: "well_formed_step v \<Longrightarrow> \<exists>line. format_step v = Inr line"
  by (cases v) (auto simp: well_formed_step_def split: list.splits)

lemma py_first_kept: "py_first s = Inr h \<Longrightarrow> kept_well_formed s \<Longrightarrow> well_formed_step h"
  by (cases s rule: py_first.cases) (auto simp: kept_well_formed_def)

lemma py_rest_kept: "py_rest s = Inr s' \<Longrightarrow> kept_well_formed s \<Longrightarrow> kept_well_formed s'"
  by (cases s rule: py_rest.cases)
    (auto simp: kept_well_formed_def list_all_iff dest!: in_set_dropD)

lemma py_eq_well_formed: "py_eq x h \<Longrightarrow> well_formed_step h \<Longrightarrow> well_formed_step x"
  by (cases h) (auto simp: well_formed_step_def)

lemma report_steps_well_formed:
  "report_steps s items = (ev, Inr left) \<Longrightarrow> kept_well_formed s \<Longrightarrow> list_all well_formed_step items"
proof (induction s items arbitrary: ev left rule: report_steps.induct)
  case (1 steps)
  then show ?case by simp
next
  case (2 steps step items)
  show ?case
  proof (cases "py_truthy steps")
    case False
    then obtain line ev' where f: "format_step step = Inr line"
      and r: "report_steps steps items = (ev', Inr left)"
      using "2.prems"(1) by (auto split: sum.splits prod.splits)
    from "2.IH"(2) [of False line ev' left] False f r "2.prems"(2) format_step_Inr [OF f]
    show ?thesis by simp
  next
    case True
    then obtain head where h: "py_first steps = Inr head"
      using "2.prems"(1) by (auto split: sum.splits)
    show ?thesis
    proof (cases "py_eq step head")
      case eq: True
      then obtain steps' where t: "py_rest steps = Inr steps'"
        and r: "report_steps steps' items = (ev, Inr left)"
        using "2.prems"(1) True h by (auto split: sum.splits)
      have "well_formed_step step"
        using py_eq_well_formed [OF eq py_first_kept [OF h "2.prems"(2)]] .
      moreover have "list_all well_formed_step items"
        using "2.IH"(1) [of True steps' ev left] True h eq t r py_rest_kept [OF t "2.prems"(2)]
        by simp
      ultimately show ?thesis by simp
    next
      case ne: False
      then obtain line ev' where f: "format_step step = Inr line"
        and r: "report_steps steps items = (ev', Inr left)"
        using "2.prems"(1) True h by (auto split: sum.splits prod.splits)
      from "2.IH"(2) [of False line ev' left] True h ne f r "2.prems"(2) format_step_Inr [OF f]
      show ?thesis by simp
    qed
  qed
qed


lemma configure_iteration_steps:
  assumes "configure_iteration env loc reply st = (ev, Inr st')" and "kept_well_formed (steps st)"
  shows "steps_well_formed reply \<and> kept_well_formed (steps st')
     \<and> reply_steps reply = (case py_iter (steps st') of Inl e \<Rightarrow> None | Inr items \<Rightarrow> Some items)"
proof -
  obtain ev1 r where d: "do_auth_request env GET (API @ loc) NoBody reply = (ev1, Inr r)"
    using assms(1)
    by (auto simp: configure_iteration_def split: prod.splits sum.splits)
  from do_auth_request_Inr [OF d]
  have r: "reply = Answer r" "status_code r \<noteq> 401" "status_code r \<noteq> 403"
    by auto
  have okr: "ok r"
    using assms(1) d by (auto simp: configure_iteration_def split: if_splits)
  obtain doc where doc: "json_of_text r = Some doc"
    using assms(1) d okr by (auto simp: configure_iteration_def split: option.splits)
  obtain kvs where kvs: "doc = JDict kvs"
    using assms(1) d okr doc
    by (cases doc) (auto simp: configure_iteration_def)
  obtain items ev2 left where
    run: "py_iter (case map_of kvs ''steps'' of None \<Rightarrow> JList [] | Some v \<Rightarrow> v) = Inr items"
      "report_steps (steps st) items = (ev2, Inr left)"
    using assms(1) d okr doc kvs
    by (auto simp: configure_iteration_def split: sum.splits prod.splits)
  have st': "steps st' = (case map_of kvs ''steps'' of None \<Rightarrow> JList [] | Some v \<Rightarrow> v)"
    using assms(1) d okr doc kvs run by (auto simp: configure_iteration_def)
  have wf: "list_all well_formed_step items"
    using report_steps_well_formed [OF run(2) assms(2)] .
  have rs: "reply_steps reply = Some items"
    using r okr doc kvs run(1) by (simp add: reply_steps_def)
  show ?thesis
    using wf rs st' run(1) by (simp add: steps_well_formed_def kept_well_formed_def)
qed

lemma poll_run_steps:
  "poll_run env loc replies st = Some (ev, st') \<Longrightarrow> kept_well_formed (steps st) \<Longrightarrow>
     list_all steps_well_formed replies \<and> kept_well_formed (steps st')"
proof (induction replies arbitrary: st ev)
  case Nil
  then show ?case by simp
next
  case (Cons reply replies)
  from Cons.prems(1) obtain ev1 st1 ev2 where
    it: "configure_iteration env loc reply st = (ev1, Inr st1)"
    and rest: "poll_run env loc replies st1 = Some (ev2, st')"
    by (auto split: if_splits prod.splits sum.splits option.splits)
  from configure_iteration_steps [OF it Cons.prems(2)] Cons.IH [OF rest]
  show ?case by simp
qed

text \<open>A run of the loop that returns: the replies it consumed, as a run of the body.\<close>

lemma configure_loop_returns:
  "configure_loop env loc replies st = Some (ev, Inr b) \<Longrightarrow>
     \<exists>st'. poll_run env loc (take (requests ev) replies) st = Some (ev, st')"
proof (induction replies arbitrary: st ev)
  case Nil
  then show ?case by (auto split: if_splits)
next
  case (Cons reply replies)
  show ?case
  proof (cases "py_eq (status st) (JStr ''running'')")
    case False
    with Cons.prems show ?thesis by auto
  next
    case True
    then obtain ev1 st1 ev2 where
      it: "configure_iteration env loc reply st = (ev1, Inr st1)"
      and rest: "configure_loop env loc replies st1 = Some (ev2, Inr b)"
      and ev: "ev = ev1 @ ev2"
      using Cons.prems by (auto split: prod.splits sum.splits option.splits)
    from Cons.IH [OF rest] obtain st' where
      "poll_run env loc (take (requests ev2) replies) st1 = Some (ev2, st')"
      by blast
    moreover have "requests ev1 = 1"
      using configure_iteration_Inr [OF it] by simp
    ultimately show ?thesis
      using True it ev by auto
  qed
qed

lemma kept_initial: "kept_well_formed (steps initial_state)"
  by (simp add: kept_well_formed_def initial_state_def)

lemma poll_returns_steps:
  assumes "configure_poll env loc replies = Some (ev, Inr b)"
  shows "list_all steps_well_formed (take (requests ev) replies)"
proof -
  from assms obtain ev' where loop: "configure_loop env loc replies initial_state = Some (ev', Inr b)"
    and ev: "ev = Log (NL @ ''Configuring Onezone:'') # ev'"
    by (auto simp: configure_poll_def initial_state_def split: option.splits)
  from configure_loop_returns [OF loop] obtain st' where
    "poll_run env loc (take (requests ev') replies) initial_state = Some (ev', st')"
    by blast
  from poll_run_steps [OF this kept_initial] show ?thesis
    using ev by simp
qed


lemma format_step_line:
  "length (split_on CHR '':'' s) = 2 \<Longrightarrow> format_step (JStr s) = Inr (step_line s)"
  by (auto simp: step_line_def split: list.splits)

lemma report_steps_fresh:
  "list_all (\<lambda>s. length (split_on CHR '':'' s) = 2) good \<Longrightarrow>
     \<exists>kept'. report_steps (JList (map JStr kept)) (map JStr good)
        = (map (\<lambda>s. Log (step_line s)) (fresh_steps kept good), Inr (JList (map JStr kept')))
      \<and> set kept' \<subseteq> set kept"
proof (induction kept good rule: fresh_steps.induct)
  case (1 kept)
  then show ?case by auto
next
  case (2 s items)
  then obtain kept' where
    "report_steps (JList []) (map JStr items)
       = (map (\<lambda>s. Log (step_line s)) (fresh_steps [] items), Inr (JList (map JStr kept')))"
    "set kept' \<subseteq> {}"
    by auto
  then show ?case
    using 2(2) by (auto simp: format_step_line simp del: format_step.simps)
next
  case (3 k kept s items)
  show ?case
  proof (cases "s = k")
    case True
    then obtain kept' where
      "report_steps (JList (map JStr kept)) (map JStr items)
         = (map (\<lambda>s. Log (step_line s)) (fresh_steps kept items), Inr (JList (map JStr kept')))"
      "set kept' \<subseteq> set kept"
      using 3 by auto
    then show ?thesis
      using True by (auto simp del: format_step.simps)
  next
    case False
    then obtain kept' where
      "report_steps (JList (map JStr (k # kept))) (map JStr items)
         = (map (\<lambda>s. Log (step_line s)) (fresh_steps (k # kept) items), Inr (JList (map JStr kept')))"
      "set kept' \<subseteq> set (k # kept)"
      using 3 by auto
    then show ?thesis
      using False 3(3) by (auto simp: format_step_line simp del: format_step.simps)
  qed
qed

lemma report_steps_append:
  "report_steps s (xs @ ys) =
     (case report_steps s xs of
        (ev, Inl e) \<Rightarrow> (ev, Inl e)
      | (ev, Inr s') \<Rightarrow> (case report_steps s' ys of (ev', res) \<Rightarrow> (ev @ ev', res)))"
  by (induction s xs rule: report_steps.induct)
    (auto split: sum.splits prod.splits bool.splits simp del: format_step.simps)

lemma report_steps_malformed:
  assumes "list_all (\<lambda>s. length (split_on CHR '':'' s) = 2) kept"
    and "length (split_on CHR '':'' bad) \<noteq> 2"
  shows "report_steps (JList (map JStr kept)) (JStr bad # rest) = ([], Inl ValueError)"
proof -
  have bad: "format_step (JStr bad) = Inl ValueError"
    using assms(2) by (auto split: list.splits)
  have "kept \<noteq> [] \<Longrightarrow> bad \<noteq> hd kept"
    using assms by (cases kept) auto
  then show ?thesis
    using bad by (cases kept) (auto simp del: format_step.simps)
qed

lemma report_steps_first_malformed:
  assumes "list_all (\<lambda>s. length (split_on CHR '':'' s) = 2) kept"
    and "list_all (\<lambda>s. length (split_on CHR '':'' s) = 2) good"
    and "length (split_on CHR '':'' bad) \<noteq> 2"
  shows "report_steps (JList (map JStr kept)) (map JStr good @ JStr bad # rest)
     = (map (\<lambda>s. Log (step_line s)) (fresh_steps kept good), Inl ValueError)"
proof -
  from report_steps_fresh [OF assms(2), of kept] obtain kept' where
    k: "report_steps (JList (map JStr kept)) (map JStr good)
        = (map (\<lambda>s. Log (step_line s)) (fresh_steps kept good), Inr (JList (map JStr kept')))"
      "set kept' \<subseteq> set kept"
    by blast
  have "list_all (\<lambda>s. length (split_on CHR '':'' s) = 2) kept'"
    using k(2) assms(1) by (auto simp: list_all_iff)
  from report_steps_malformed [OF this assms(3), of rest] k(1)
  show ?thesis
    by (simp add: report_steps_append)
qed

lemma poll_run_kept:
  assumes "poll_run env loc pre initial_state = Some (evp, st)"
    and "steps st = JList (map JStr kept)"
  shows "list_all (\<lambda>s. length (split_on CHR '':'' s) = 2) kept"
proof -
  have "kept_well_formed (steps st)"
    using poll_run_steps [OF assms(1) kept_initial] by simp
  then show ?thesis
    using assms(2) by (simp add: kept_well_formed_def well_formed_step_def list_all_iff)
qed

lemma malformed_step_trace:
  assumes env: "env EMERGENCY_PASSPHRASE_VARIABLE = Some p"
    and run: "poll_run env loc pre initial_state = Some (evp, st)"
    and running: "status st = JStr ''running''"
    and kept: "steps st = JList (map JStr kept)"
    and r: "ok r" "json_of_text r = Some (JDict d)"
      "map_of d ''steps'' = Some (JList (map JStr good @ JStr bad # rest))"
    and good: "list_all (\<lambda>s. length (split_on CHR '':'' s) = 2) good"
    and bad: "length (split_on CHR '':'' bad) \<noteq> 2"
  shows "configure_poll env loc (pre @ Answer r # later) =
     Some (Log (NL @ ''Configuring Onezone:'') # evp
             @ Http GET (API @ loc) (Some (PASSPHRASE_USERNAME, p)) NoBody
             # map (\<lambda>s. Log (step_line s)) (fresh_steps kept good),
           Inl ValueError)"
proof -
  have steps: "report_steps (steps st) (map JStr good @ JStr bad # rest)
     = (map (\<lambda>s. Log (step_line s)) (fresh_steps kept good), Inl ValueError)"
    unfolding kept
    using report_steps_first_malformed [OF poll_run_kept [OF run kept] good bad] .
  have it: "configure_iteration env loc (Answer r) st =
      (Http GET (API @ loc) (Some (PASSPHRASE_USERNAME, p)) NoBody
         # map (\<lambda>s. Log (step_line s)) (fresh_steps kept good), Inl ValueError)"
    unfolding configure_iteration_doc [where env = env and p = p, OF env r(1,2)]
    using r(3) steps by (simp add: Let_def)
  have "configure_loop env loc (Answer r # later) st =
      Some (Http GET (API @ loc) (Some (PASSPHRASE_USERNAME, p)) NoBody
         # map (\<lambda>s. Log (step_line s)) (fresh_steps kept good), Inl ValueError)"
    using running it by simp
  then have "configure_loop env loc (pre @ Answer r # later) initial_state =
      Some (evp @ Http GET (API @ loc) (Some (PASSPHRASE_USERNAME, p)) NoBody
         # map (\<lambda>s. Log (step_line s)) (fresh_steps kept good), Inl ValueError)"
    using configure_loop_append [OF run, of "Answer r # later"] by simp
  then show ?thesis
    by (simp add: configure_poll_def initial_state_def)
qed

text \<open>
  C9. A poll that returns has found every step of every reply it consumed well formed.
  And with the passphrase set: the poll is still running after the replies \<open>pre\<close>, with
  the events \<open>evp\<close> so far and the list \<open>kept\<close> of steps from the last of them; the next
  reply is a document whose steps are the well-formed steps \<open>good\<close>, then the string \<open>bad\<close>
  that does not split into exactly two parts, then anything. Then the poll raises the
  \<^verbatim>\<open>ValueError\<close> of the failed unpacking in \<^verbatim>\<open>format_step\<close>, and all it does after the
  events so far is the GET and the lines of those of \<open>good\<close> that are new: nothing is
  written for \<open>bad\<close>, there is no sleep, no further request and no \<^verbatim>\<open>RuntimeError\<close>.
\<close>

theorem malformed_step_raises:
  "(\<forall>ev b. configure_poll env loc replies = Some (ev, Inr b) \<longrightarrow>
        list_all steps_well_formed (take (requests ev) replies))
   \<and> (env EMERGENCY_PASSPHRASE_VARIABLE = Some p
        \<and> poll_run env loc pre initial_state = Some (evp, st)
        \<and> status st = JStr ''running'' \<and> steps st = JList (map JStr kept)
        \<and> ok r \<and> json_of_text r = Some (JDict d)
        \<and> map_of d ''steps'' = Some (JList (map JStr good @ JStr bad # rest))
        \<and> list_all (\<lambda>s. length (split_on CHR '':'' s) = 2) good
        \<and> length (split_on CHR '':'' bad) \<noteq> 2 \<longrightarrow>
        configure_poll env loc (pre @ Answer r # later) =
          Some (Log (NL @ ''Configuring Onezone:'') # evp
                  @ Http GET (API @ loc) (Some (PASSPHRASE_USERNAME, p)) NoBody
                  # map (\<lambda>s. Log (step_line s)) (fresh_steps kept good),
                Inl ValueError))"
proof (intro conjI allI impI)
  fix ev b
  assume "configure_poll env loc replies = Some (ev, Inr b)"
  then show "list_all steps_well_formed (take (requests ev) replies)"
    by (rule poll_returns_steps)
next
  assume a: "env EMERGENCY_PASSPHRASE_VARIABLE = Some p
        \<and> poll_run env loc pre initial_state = Some (evp, st)
        \<and> status st = JStr ''running'' \<and> steps st = JList (map JStr kept)
        \<and> ok r \<and> json_of_text r = Some (JDict d)
        \<and> map_of d ''steps'' = Some (JList (map JStr good @ JStr bad # rest))
        \<and> list_all (\<lambda>s. length (split_on CHR '':'' s) = 2) good
        \<and> length (split_on CHR '':'' bad) \<noteq> 2"
  show "configure_poll env loc (pre @ Answer r # later) =
          Some (Log (NL @ ''Configuring Onezone:'') # evp
                  @ Http GET (API @ loc) (Some (PASSPHRASE_USERNAME, p)) NoBody
                  # map (\<lambda>s. Log (step_line s)) (fresh_steps kept good),
                Inl ValueError)"
    by (rule malformed_step_trace [where env = env and p = p and st = st and d = d
          and bad = bad and rest = rest]) (use a in simp_all)
qed

theorem malformed_step_raises_witness:
  "list_all steps_well_formed
     [task_reply (JDict [(''status'', JStr ''ok''), (''steps'', JList [JStr ''oz_worker:start''])])]
   \<and> configure_poll (passphrase_env ''secret'') ''/tasks/7''
        [task_reply (JDict [(''status'', JStr ''running''), (''steps'', JList [JStr ''oz_worker:start''])]),
         task_reply (JDict [(''status'', JStr ''running''),
           (''steps'', JList [JStr ''oz_worker:start'', JStr ''oz_panel:configure'',
                              JStr ''oz_worker:check:again'', JStr ''oz_worker:stop''])]),
         task_reply (JDict [(''status'', JStr ''ok'')])] =
       Some ([Log (NL @ ''Configuring Onezone:''),
              Http GET ''https://127.0.0.1:9443/tasks/7'' (Some (''onepanel'', ''secret'')) NoBody,
              Log ''* oz_worker: start'', Sleep 1,
              Http GET ''https://127.0.0.1:9443/tasks/7'' (Some (''onepanel'', ''secret'')) NoBody,
              Log ''* oz_panel: configure''],
             Inl ValueError)"
proof -
  let ?env = "passphrase_env ''secret''"
  let ?r0 = "task_reply (JDict [(''status'', JStr ''ok''), (''steps'', JList [JStr ''oz_worker:start''])])"
  let ?d1 = "[(''status'', JStr ''running''), (''steps'', JList [JStr ''oz_worker:start''])]"
  let ?d2 = "[(''status'', JStr ''running''),
           (''steps'', JList [JStr ''oz_worker:start'', JStr ''oz_panel:configure'',
                              JStr ''oz_worker:check:again'', JStr ''oz_worker:stop''])]"
  let ?r2 = "\<lparr>status_code = 200, body_text = [], headers = [],
     json_of_text = Some (JDict ?d2), xml_of_text = None\<rparr>"
  let ?get = "Http GET ''https://127.0.0.1:9443/tasks/7'' (Some (''onepanel'', ''secret'')) NoBody"
  let ?st = "\<lparr>status = JStr ''running'', steps = JList [JStr ''oz_worker:start''], resp = JDict ?d1\<rparr>"
  note defs = configure_poll_def configure_iteration_def do_auth_request_def
        get_emergency_passphrase_def passphrase_env_def task_reply_def ok_def API_def
        PASSPHRASE_USERNAME_def configure_finish_def
  have returns: "configure_poll ?env ''/tasks/7'' [?r0] =
      Some ([Log (NL @ ''Configuring Onezone:''), ?get, Log ''* oz_worker: start'', Sleep 1], Inr True)"
    by (simp add: defs)
  have run: "poll_run ?env ''/tasks/7'' [task_reply (JDict ?d1)] initial_state
      = Some ([?get, Log ''* oz_worker: start'', Sleep 1], ?st)"
    by (simp add: defs initial_state_def)
  have env: "?env EMERGENCY_PASSPHRASE_VARIABLE = Some ''secret''"
    by (simp add: passphrase_env_def)
  from malformed_step_raises [of ?env "''/tasks/7''" "[?r0]" "''secret''"
      "[task_reply (JDict ?d1)]" "[?get, Log ''* oz_worker: start'', Sleep 1]" ?st
      "[''oz_worker:start'']" ?r2 ?d2 "[''oz_worker:start'', ''oz_panel:configure'']"
      "''oz_worker:check:again''" "[JStr ''oz_worker:stop'']"
      "[task_reply (JDict [(''status'', JStr ''ok'')])]"]
    returns run env
  show ?thesis
    by (auto simp: ok_def step_line_def task_reply_def API_def PASSPHRASE_USERNAME_def)
qed

section \<open>Waiting until the service is healthy\<close>

lemma nagios_up_result:
  "snd (nagios_up env url log_errors reply) =
     (case get_emergency_passphrase env of
        Inl e \<Rightarrow> Inr False
      | Inr passphrase \<Rightarrow>
          (case reply of
             NoAnswer \<Rightarrow> Inr False
           | Answer r \<Rightarrow>
               if 400 \<le> status_code r \<and> status_code r < 600 then Inr False
               else (case xml_of_text r of
                       None \<Rightarrow> Inl ParseError
                     | Some attrib \<Rightarrow>
                         (case map_of attrib ''status'' of
                            None \<Rightarrow> Inl KeyError
                          | Some health \<Rightarrow> Inr (health = ''ok'')))))"
  by (auto simp: nagios_up_def do_auth_request_def ok_def Let_def
      split: sum.splits reply.splits option.splits)

lemma nagios_up_flag:
  "snd (nagios_up env url log_errors reply) = snd (nagios_up env url False reply)"
  by (simp add: nagios_up_result)

lemma nagios_up_no_sleep: "sleeps (fst (nagios_up env url log_errors reply)) = 0"
  by (auto simp: nagios_up_def do_auth_request_def sleeps_def Let_def
      split: sum.splits reply.splits option.splits)

lemma sleeps_append [simp]: "sleeps (ev @ ev') = sleeps ev + sleeps ev'"
  by (simp add: sleeps_def)

lemma sleeps_failed_attempts: "sleeps (failed_attempts env n replies) = length replies"
proof (induction replies arbitrary: n)
  case Nil
  then show ?case by (simp add: sleeps_def)
next
  case (Cons reply replies)
  have "sleeps (Sleep 1 # failed_attempts env (Suc n) replies) = Suc (length replies)"
    using Cons.IH [of "Suc n"] by (simp add: sleeps_def)
  then show ?case
    by (simp add: nagios_up_no_sleep)
qed

lemma failed_attempts_append:
  "failed_attempts env n (pre @ rest) = failed_attempts env n pre @ failed_attempts env (n + length pre) rest"
  by (induction pre arbitrary: n) auto

lemma wait_loop_unhealthy:
  "list_all (unhealthy env) pre \<Longrightarrow> n + length pre < 120 \<Longrightarrow>
     wait_loop env (pre @ rest) n =
       (case wait_loop env rest (n + length pre) of
          None \<Rightarrow> None
        | Some (ev, res) \<Rightarrow> Some (failed_attempts env n pre @ ev, res))"
proof (induction pre arbitrary: n)
  case Nil
  then show ?case by (auto split: option.splits)
next
  case (Cons reply pre)
  have "snd (nagios_up env NAGIOS_URL (n mod 10 = 9) reply) = Inr False"
    using Cons.prems(1) nagios_up_flag [of env NAGIOS_URL "n mod 10 = 9" reply]
    by (simp add: unhealthy_def)
  then obtain ev where up: "nagios_up env NAGIOS_URL (n mod 10 = 9) reply = (ev, Inr False)"
    by (cases "nagios_up env NAGIOS_URL (n mod 10 = 9) reply") auto
  have ih: "wait_loop env (pre @ rest) (Suc n) =
       (case wait_loop env rest (Suc n + length pre) of
          None \<Rightarrow> None
        | Some (ev, res) \<Rightarrow> Some (failed_attempts env (Suc n) pre @ ev, res))"
    using Cons.IH [of "Suc n"] Cons.prems by simp
  show ?case
    using up ih Cons.prems(2) by (auto split: option.splits)
qed

lemma wait_loop_last:
  assumes "nagios_up env NAGIOS_URL (n mod 10 = 9) reply = (ev, out)"
  shows "wait_loop env (reply # rest) n =
     (case out of
        Inl e \<Rightarrow> Some (ev, Inl e)
      | Inr True \<Rightarrow> Some (ev, Inr ())
      | Inr False \<Rightarrow>
          if Suc n = 120
          then Some (ev @ [Sleep 1],
                     Inl (RuntimeError ''Timeout waiting for the Onepanel service readiness''))
          else (case wait_loop env rest (Suc n) of
                  None \<Rightarrow> None
                | Some (ev', res) \<Rightarrow> Some (ev @ Sleep 1 # ev', res)))"
  using assms by (auto split: sum.splits bool.splits)

text \<open>
  The outcomes of \<^verbatim>\<open>wait_for_workers\<close> in terms of what \<^verbatim>\<open>nagios_up\<close> returns on the
  replies.
\<close>

lemma wait_for_workers_by_result:
  "(120 \<le> length replies \<and> list_all (unhealthy env) (take 120 replies) \<longrightarrow>
      wait_for_workers env replies =
        Some (failed_attempts env 0 (take 120 replies),
              Inl (RuntimeError ''Timeout waiting for the Onepanel service readiness''))
      \<and> sleeps (failed_attempts env 0 (take 120 replies)) = 120)
   \<and> (length replies < 120 \<and> list_all (unhealthy env) replies \<longrightarrow>
        wait_for_workers env replies = None)
   \<and> (length pre < 120 \<and> list_all (unhealthy env) pre \<and> healthy env reply \<longrightarrow>
        wait_for_workers env (pre @ reply # later) =
          Some (failed_attempts env 0 pre
                  @ fst (nagios_up env NAGIOS_URL (length pre mod 10 = 9) reply),
                Inr ()))"
proof (intro conjI impI)
  assume a: "120 \<le> length replies \<and> list_all (unhealthy env) (take 120 replies)"
  define pre where "pre = take 119 replies"
  define reply where "reply = replies ! 119"
  define rest where "rest = drop 120 replies"
  have "drop 119 replies = reply # rest"
    using a Cons_nth_drop_Suc [of 119 replies] by (simp add: reply_def rest_def)
  then have split: "replies = pre @ reply # rest"
    using append_take_drop_id [of 119 replies] by (simp add: pre_def)
  have len: "length pre = 119"
    using a by (simp add: pre_def)
  have t: "take 120 replies = pre @ [reply]"
    using split len by simp
  have un: "list_all (unhealthy env) pre" "unhealthy env reply"
    using a t by auto
  obtain ev where up: "nagios_up env NAGIOS_URL ((119::nat) mod 10 = 9) reply = (ev, Inr False)"
    using un(2) nagios_up_flag [of env NAGIOS_URL "(119::nat) mod 10 = 9" reply]
    by (cases "nagios_up env NAGIOS_URL ((119::nat) mod 10 = 9) reply") (auto simp: unhealthy_def)
  have last: "wait_loop env (reply # rest) 119 =
      Some (ev @ [Sleep 1], Inl (RuntimeError ''Timeout waiting for the Onepanel service readiness''))"
    using wait_loop_last [OF up, of rest] by simp
  have "wait_loop env (pre @ reply # rest) 0 =
      Some (failed_attempts env 0 pre @ ev @ [Sleep 1],
            Inl (RuntimeError ''Timeout waiting for the Onepanel service readiness''))"
    using wait_loop_unhealthy [OF un(1), of 0 "reply # rest"] len last by simp
  moreover have "failed_attempts env 0 (pre @ [reply]) = failed_attempts env 0 pre @ ev @ [Sleep 1]"
    using up len by (simp add: failed_attempts_append)
  ultimately show "wait_for_workers env replies =
        Some (failed_attempts env 0 (take 120 replies),
              Inl (RuntimeError ''Timeout waiting for the Onepanel service readiness''))"
    using split t by (simp add: wait_for_workers_def)
  show "sleeps (failed_attempts env 0 (take 120 replies)) = 120"
    using a by (simp add: sleeps_failed_attempts)
next
  assume a: "length replies < 120 \<and> list_all (unhealthy env) replies"
  then show "wait_for_workers env replies = None"
    using wait_loop_unhealthy [of env replies 0 "[]"] by (simp add: wait_for_workers_def)
next
  assume a: "length pre < 120 \<and> list_all (unhealthy env) pre \<and> healthy env reply"
  obtain ev where up:
    "nagios_up env NAGIOS_URL (length pre mod 10 = 9) reply = (ev, Inr True)"
    using a nagios_up_flag [of env NAGIOS_URL "length pre mod 10 = 9" reply]
    by (cases "nagios_up env NAGIOS_URL (length pre mod 10 = 9) reply") (auto simp: healthy_def)
  have "wait_loop env (reply # later) (length pre) = Some (ev, Inr ())"
    using wait_loop_last [OF up, of later] by simp
  then show "wait_for_workers env (pre @ reply # later) =
          Some (failed_attempts env 0 pre
                  @ fst (nagios_up env NAGIOS_URL (length pre mod 10 = 9) reply),
                Inr ())"
    using wait_loop_unhealthy [of env pre 0 "reply # later"] a up
    by (simp add: wait_for_workers_def)
qed


lemma nagios_up_trace:
  "env EMERGENCY_PASSPHRASE_VARIABLE = Some p \<Longrightarrow>
     fst (nagios_up env NAGIOS_URL (n mod 10 = 9) reply) = attempt_trace p n reply"
  by (auto simp: nagios_up_def do_auth_request_def get_emergency_passphrase_def attempt_trace_def
      NAGIOS_URL_def PASSPHRASE_USERNAME_def ok_def Let_def
      split: reply.splits option.splits)

lemma failed_attempts_trace:
  "env EMERGENCY_PASSPHRASE_VARIABLE = Some p \<Longrightarrow>
     failed_attempts env n replies = failed_trace p n replies"
  by (induction replies arbitrary: n) (simp_all add: nagios_up_trace)

lemma reports_not_ok_unhealthy:
  "env EMERGENCY_PASSPHRASE_VARIABLE = Some p \<Longrightarrow> reports_not_ok reply \<Longrightarrow> unhealthy env reply"
  by (auto simp: unhealthy_def nagios_up_result get_emergency_passphrase_def reports_not_ok_def
      split: reply.splits option.splits)

lemma reports_ok_healthy:
  "env EMERGENCY_PASSPHRASE_VARIABLE = Some p \<Longrightarrow> reports_ok reply \<Longrightarrow> healthy env reply"
  by (auto simp: healthy_def nagios_up_result get_emergency_passphrase_def reports_ok_def
      split: reply.splits option.splits)

lemma requests_attempt_trace: "requests (attempt_trace p n reply) = 1"
  by (auto simp: attempt_trace_def split: reply.splits)

lemma sleeps_attempt_trace: "sleeps (attempt_trace p n reply) = 0"
  by (auto simp: attempt_trace_def sleeps_def split: reply.splits)

lemma requests_failed_trace: "requests (failed_trace p n replies) = length replies"
  by (induction replies arbitrary: n) (simp_all add: requests_attempt_trace)

lemma sleeps_failed_trace: "sleeps (failed_trace p n replies) = length replies"
proof (induction replies arbitrary: n)
  case Nil
  then show ?case by (simp add: sleeps_def)
next
  case (Cons reply replies)
  have "sleeps (Sleep 1 # failed_trace p (Suc n) replies) = Suc (length replies)"
    using Cons.IH [of "Suc n"] by (simp add: sleeps_def)
  then show ?case
    by (simp add: sleeps_attempt_trace)
qed

text \<open>
  C6. With the passphrase \<open>p\<close> set: if the first 120 replies to the health checks all
  report not ok, \<^verbatim>\<open>wait_for_workers\<close> raises the timeout error after exactly those 120
  attempts, each one request followed by a sleep of one second (120 requests and 120
  sleeps in all). Fewer than 120 such replies do not end the wait. And a reply that
  reports ok after fewer than 120 that do not ends it at once: its request is the last
  event, with no sleep after it.
\<close>

theorem wait_times_out_after_120:
  assumes env: "env EMERGENCY_PASSPHRASE_VARIABLE = Some p"
  shows "(120 \<le> length replies \<and> list_all reports_not_ok (take 120 replies) \<longrightarrow>
      wait_for_workers env replies =
        Some (failed_trace p 0 (take 120 replies),
              Inl (RuntimeError ''Timeout waiting for the Onepanel service readiness''))
      \<and> requests (failed_trace p 0 (take 120 replies)) = 120
      \<and> sleeps (failed_trace p 0 (take 120 replies)) = 120)
   \<and> (length replies < 120 \<and> list_all reports_not_ok replies \<longrightarrow>
        wait_for_workers env replies = None)
   \<and> (length pre < 120 \<and> list_all reports_not_ok pre \<and> reports_ok reply \<longrightarrow>
        wait_for_workers env (pre @ reply # later) =
          Some (failed_trace p 0 pre
                  @ [Http GET ''https://127.0.0.1:9443/api/v3/onepanel/zone/nagios''
                       (Some (''onepanel'', p)) NoBody],
                Inr ()))"
proof -
  have un: "list_all reports_not_ok rs \<Longrightarrow> list_all (unhealthy env) rs" for rs
    using reports_not_ok_unhealthy [where env = env and p = p, OF env] by (auto simp: list_all_iff)
  have quiet: "reports_ok reply \<Longrightarrow> attempt_trace p n reply
      = [Http GET ''https://127.0.0.1:9443/api/v3/onepanel/zone/nagios'' (Some (''onepanel'', p)) NoBody]" for n
    by (auto simp: attempt_trace_def reports_ok_def split: reply.splits)
  show ?thesis
    using wait_for_workers_by_result [of replies env pre reply later] un [of "take 120 replies"]
      un [of replies] un [of pre] reports_ok_healthy [where env = env and p = p, OF env, of reply] quiet [of "length pre"]
    by (simp add: failed_attempts_trace [where env = env and p = p, OF env] nagios_up_trace [where env = env and p = p, OF env]
        requests_failed_trace sleeps_failed_trace)
qed


lemma failed_trace_quiet:
  "failed_trace p n (replicate k (health_reply 200 root)) =
     concat (replicate k
       [Http GET ''https://127.0.0.1:9443/api/v3/onepanel/zone/nagios'' (Some (''onepanel'', p)) NoBody,
        Sleep 1])"
  by (induction k arbitrary: n) (simp_all add: attempt_trace_def health_reply_def)

theorem wait_times_out_after_120_witness:
  "wait_for_workers (passphrase_env ''secret'')
       (replicate 120 (health_reply 200 (Some [(''status'', ''error'')]))) =
     Some (concat (replicate 120
             [Http GET ''https://127.0.0.1:9443/api/v3/onepanel/zone/nagios''
                (Some (''onepanel'', ''secret'')) NoBody,
              Sleep 1]),
           Inl (RuntimeError ''Timeout waiting for the Onepanel service readiness''))
   \<and> wait_for_workers (passphrase_env ''secret'')
        (replicate 119 (health_reply 200 (Some [(''status'', ''error'')]))) = None
   \<and> wait_for_workers (passphrase_env ''secret'')
        [health_reply 503 None, health_reply 200 (Some [(''status'', ''error'')]),
         health_reply 200 (Some [(''status'', ''ok'')]), health_reply 503 None] =
       Some ([Http GET ''https://127.0.0.1:9443/api/v3/onepanel/zone/nagios''
                (Some (''onepanel'', ''secret'')) NoBody, Sleep 1,
              Http GET ''https://127.0.0.1:9443/api/v3/onepanel/zone/nagios''
                (Some (''onepanel'', ''secret'')) NoBody, Sleep 1,
              Http GET ''https://127.0.0.1:9443/api/v3/onepanel/zone/nagios''
                (Some (''onepanel'', ''secret'')) NoBody],
             Inr ())"
proof -
  let ?env = "passphrase_env ''secret''"
  let ?down = "health_reply 200 (Some [(''status'', ''error'')])"
  have env: "?env EMERGENCY_PASSPHRASE_VARIABLE = Some ''secret''"
    by (simp add: passphrase_env_def)
  have down: "reports_not_ok ?down" "reports_not_ok (health_reply 503 None)"
    by (simp_all add: reports_not_ok_def health_reply_def)
  have up: "reports_ok (health_reply 200 (Some [(''status'', ''ok'')]))"
    by (simp add: reports_ok_def health_reply_def)
  have all: "list_all reports_not_ok (replicate n ?down)" for n
    using down by (simp add: list_all_iff)
  have short: "failed_trace ''secret'' 0 [health_reply 503 None, ?down] =
      [Http GET ''https://127.0.0.1:9443/api/v3/onepanel/zone/nagios''
         (Some (''onepanel'', ''secret'')) NoBody, Sleep 1,
       Http GET ''https://127.0.0.1:9443/api/v3/onepanel/zone/nagios''
         (Some (''onepanel'', ''secret'')) NoBody, Sleep 1]"
    by (simp add: attempt_trace_def health_reply_def)
  from wait_times_out_after_120 [where env = ?env and p = "''secret''", OF env,
      of "replicate 120 ?down" "[health_reply 503 None, ?down]"
         "health_reply 200 (Some [(''status'', ''ok'')])" "[health_reply 503 None]"]
    wait_times_out_after_120 [where env = ?env and p = "''secret''", OF env,
      of "replicate 119 ?down"]
    all [of 120] all [of 119] down up short
  show ?thesis
    by (simp add: failed_trace_quiet)
qed

text \<open>
  C10 (as the script behaves). A health check counts as a failed attempt when the request
  cannot be made or is not answered (the passphrase variable is missing, the transport
  fails), when the status of the answer is one from 400 to 599, or when the body is a
  well-formed document whose \<^verbatim>\<open>status\<close> attribute is not \<^verbatim>\<open>ok\<close>. An answer with any other
  status whose body is not well-formed XML, or whose root has no \<^verbatim>\<open>status\<close> attribute,
  raises (a \<^verbatim>\<open>ParseError\<close>, a \<^verbatim>\<open>KeyError\<close>), and the error leaves the wait loop at that
  attempt instead of being counted.
\<close>

theorem observation_outcomes:
  "snd (nagios_up env NAGIOS_URL log_errors reply) =
     (case get_emergency_passphrase env of
        Inl e \<Rightarrow> Inr False
      | Inr passphrase \<Rightarrow>
          (case reply of
             NoAnswer \<Rightarrow> Inr False
           | Answer r \<Rightarrow>
               if 400 \<le> status_code r \<and> status_code r < 600 then Inr False
               else (case xml_of_text r of
                       None \<Rightarrow> Inl ParseError
                     | Some attrib \<Rightarrow>
                         (case map_of attrib ''status'' of
                            None \<Rightarrow> Inl KeyError
                          | Some health \<Rightarrow> Inr (health = ''ok'')))))
   \<and> (length pre < 120 \<and> list_all (unhealthy env) pre
        \<and> snd (nagios_up env NAGIOS_URL False reply) = Inl e \<longrightarrow>
        wait_for_workers env (pre @ reply # later) =
          Some (failed_attempts env 0 pre
                  @ fst (nagios_up env NAGIOS_URL (length pre mod 10 = 9) reply),
                Inl e))"
proof (intro conjI impI)
  show "snd (nagios_up env NAGIOS_URL log_errors reply) =
     (case get_emergency_passphrase env of
        Inl e \<Rightarrow> Inr False
      | Inr passphrase \<Rightarrow>
          (case reply of
             NoAnswer \<Rightarrow> Inr False
           | Answer r \<Rightarrow>
               if 400 \<le> status_code r \<and> status_code r < 600 then Inr False
               else (case xml_of_text r of
                       None \<Rightarrow> Inl ParseError
                     | Some attrib \<Rightarrow>
                         (case map_of attrib ''status'' of
                            None \<Rightarrow> Inl KeyError
                          | Some health \<Rightarrow> Inr (health = ''ok'')))))"
    by (rule nagios_up_result)
next
  assume a: "length pre < 120 \<and> list_all (unhealthy env) pre
        \<and> snd (nagios_up env NAGIOS_URL False reply) = Inl e"
  obtain ev where up:
    "nagios_up env NAGIOS_URL (length pre mod 10 = 9) reply = (ev, Inl e)"
    using a nagios_up_flag [of env NAGIOS_URL "length pre mod 10 = 9" reply]
    by (cases "nagios_up env NAGIOS_URL (length pre mod 10 = 9) reply") auto
  have "wait_loop env (reply # later) (length pre) = Some (ev, Inl e)"
    using wait_loop_last [OF up, of later] by simp
  then show "wait_for_workers env (pre @ reply # later) =
          Some (failed_attempts env 0 pre
                  @ fst (nagios_up env NAGIOS_URL (length pre mod 10 = 9) reply),
                Inl e)"
    using wait_loop_unhealthy [of env pre 0 "reply # later"] a up
    by (simp add: wait_for_workers_def)
qed

text \<open>
  Against the claim as it was stated: an answer 200 with a well-formed document whose
  status is \<^verbatim>\<open>error\<close> is no transport failure and has a success status, and it counts as
  a failed attempt (the loop sleeps and asks again); so does a missing passphrase
  variable, for which no request is sent at all.
\<close>

theorem observation_outcomes_counterexample:
  "nagios_up (passphrase_env ''secret'') NAGIOS_URL False
       (health_reply 200 (Some [(''status'', ''error'')]))
     = ([Http GET NAGIOS_URL (Some (''onepanel'', ''secret'')) NoBody], Inr False)
   \<and> wait_for_workers (passphrase_env ''secret'')
        [health_reply 200 (Some [(''status'', ''error'')]),
         health_reply 200 (Some [(''status'', ''ok'')])] =
       Some ([Http GET NAGIOS_URL (Some (''onepanel'', ''secret'')) NoBody, Sleep 1,
              Http GET NAGIOS_URL (Some (''onepanel'', ''secret'')) NoBody],
             Inr ())
   \<and> nagios_up empty_env NAGIOS_URL False (health_reply 200 (Some [(''status'', ''ok'')]))
     = ([], Inr False)"
  by (simp add: wait_for_workers_def nagios_up_def do_auth_request_def
      get_emergency_passphrase_def passphrase_env_def empty_env_def health_reply_def
      PASSPHRASE_USERNAME_def ok_def)

theorem observation_outcomes_witness:
  "snd (nagios_up (passphrase_env ''secret'') NAGIOS_URL False (health_reply 200 None)) = Inl ParseError
   \<and> snd (nagios_up (passphrase_env ''secret'') NAGIOS_URL False
            (health_reply 200 (Some [(''state'', ''ok'')]))) = Inl KeyError
   \<and> wait_for_workers (passphrase_env ''secret'')
        [health_reply 503 None, health_reply 200 None, health_reply 200 (Some [(''status'', ''ok'')])] =
       Some ([Http GET NAGIOS_URL (Some (''onepanel'', ''secret'')) NoBody, Sleep 1,
              Http GET NAGIOS_URL (Some (''onepanel'', ''secret'')) NoBody],
             Inl ParseError)"
proof -
  let ?env = "passphrase_env ''secret''"
  have p: "get_emergency_passphrase ?env = Inr ''secret''"
    by (simp add: get_emergency_passphrase_def passphrase_env_def)
  have sent: "fst (nagios_up ?env NAGIOS_URL False r) =
      [Http GET NAGIOS_URL (Some (''onepanel'', ''secret'')) NoBody]"
    if "r = health_reply 503 None \<or> r = health_reply 200 None" for r
    using that
    by (auto simp: nagios_up_def do_auth_request_def get_emergency_passphrase_def
        passphrase_env_def health_reply_def PASSPHRASE_USERNAME_def ok_def)
  from observation_outcomes [of ?env False "health_reply 200 None" "[health_reply 503 None]"
      ParseError "[health_reply 200 (Some [(''status'', ''ok'')])]"]
    observation_outcomes [of ?env False "health_reply 200 (Some [(''state'', ''ok'')])"]
    observation_outcomes [of ?env False "health_reply 503 None"]
    p sent
  show ?thesis
    by (simp add: health_reply_def unhealthy_def)
qed

end
